theory Spec2Isabelle
  imports Main
begin

section \<open>Elementwise kernels of Cupy: a shallow embedding\<close>

text \<open>
  The development follows \<^verbatim>\<open>elementwise.py\<close> and the memoizing decorator of
  \<^verbatim>\<open>cuda/device.py\<close>. Python names that start with an underscore lose it
  (\<^verbatim>\<open>_get_typename\<close> is \<open>get_typename\<close>), since an Isabelle name starts
  with a letter. Exceptions are values of the type \<open>error\<close>; a function that can raise
  returns \<open>error + 'a\<close>, with \<open>Inl\<close> for the exception.
\<close>

subsection \<open>Exceptions and element types\<close>

text \<open>
  The constructor is the Python exception class, its argument the message. Where the
  source interpolates the \<^verbatim>\<open>repr\<close> of a Python object into the message (a type
  object, a tuple, a device id) the model keeps the fixed part of the format string.
\<close>

datatype error =
    Exception string
  | TypeError string
  | ValueError string
  | KeyError string
  | IndexError string
  | AttributeError string
  | AssertionError

text \<open>
  The twelve element types of the table \<^verbatim>\<open>_typenames\<close>, and \<open>OtherDtype\<close> for
  every other numpy dtype (complex, string, structured ...), given by its name.
\<close>

datatype dtype =
    Float64 | Float32 | Float16
  | Int64 | Int32 | Int16 | Int8
  | UInt64 | UInt32 | UInt16 | UInt8
  | Bool
  | OtherDtype string

text \<open>\<^verbatim>\<open>dtype.name\<close>, the canonical name of an element type.\<close>

fun dtype_name :: "dtype \<Rightarrow> string" where
  "dtype_name Float64 = ''float64''"
| "dtype_name Float32 = ''float32''"
| "dtype_name Float16 = ''float16''"
| "dtype_name Int64 = ''int64''"
| "dtype_name Int32 = ''int32''"
| "dtype_name Int16 = ''int16''"
| "dtype_name Int8 = ''int8''"
| "dtype_name UInt64 = ''uint64''"
| "dtype_name UInt32 = ''uint32''"
| "dtype_name UInt16 = ''uint16''"
| "dtype_name UInt8 = ''uint8''"
| "dtype_name Bool = ''bool''"
| "dtype_name (OtherDtype n) = n"

text \<open>The dictionary \<^verbatim>\<open>_typenames\<close>.\<close>

fun typenames :: "dtype \<Rightarrow> string option" where
  "typenames Float64 = Some ''double''"
| "typenames Float32 = Some ''float''"
| "typenames Float16 = Some ''float16''"
| "typenames Int64 = Some ''long long''"
| "typenames Int32 = Some ''int''"
| "typenames Int16 = Some ''short''"
| "typenames Int8 = Some ''signed char''"
| "typenames UInt64 = Some ''unsigned long long''"
| "typenames UInt32 = Some ''unsigned int''"
| "typenames UInt16 = Some ''unsigned short''"
| "typenames UInt8 = Some ''unsigned char''"
| "typenames Bool = Some ''bool''"
| "typenames (OtherDtype n) = None"

text \<open>
  \<^verbatim>\<open>_get_typename\<close>: \<^verbatim>\<open>None\<close> raises ValueError, a dtype missing from the table
  raises KeyError.
\<close>

definition get_typename :: "dtype option \<Rightarrow> error + string" where
  "get_typename dt =
     (case dt of
        None \<Rightarrow> Inl (ValueError ''dtype is None'')
      | Some d \<Rightarrow>
          (case typenames d of
             None \<Rightarrow> Inl (KeyError (dtype_name d))
           | Some c \<Rightarrow> Inr c))"

text \<open>The names under which the table's element types are written in a parameter list.\<close>

definition canonical_names :: "string list" where
  "canonical_names =
     [''float64'', ''float32'', ''float16'', ''int64'', ''int32'', ''int16'', ''int8'',
      ''uint64'', ''uint32'', ''uint16'', ''uint8'', ''bool'']"

subsection \<open>Python string operations\<close>

text \<open>The whitespace of \<^verbatim>\<open>str.split()\<close> and \<^verbatim>\<open>str.strip()\<close>.\<close>

definition is_space :: "char \<Rightarrow> bool" where
  "is_space c = (c \<in> set [CHR '' '', CHR 0x09, CHR 0x0A, CHR 0x0B, CHR 0x0C, CHR 0x0D])"

text \<open>
  \<^verbatim>\<open>str.split()\<close>: the maximal runs of non-whitespace characters. The first
  argument is the token being read.
\<close>

fun split_ws_from :: "string \<Rightarrow> string \<Rightarrow> string list" where
  "split_ws_from cur [] = (if cur = [] then [] else [cur])"
| "split_ws_from cur (c # cs) =
     (if is_space c
      then (if cur = [] then split_ws_from [] cs else cur # split_ws_from [] cs)
      else split_ws_from (cur @ [c]) cs)"

definition split_ws :: "string \<Rightarrow> string list" where
  "split_ws s = split_ws_from [] s"

text \<open>\<^verbatim>\<open>str.strip()\<close>.\<close>

definition strip :: "string \<Rightarrow> string" where
  "strip s = rev (dropWhile is_space (rev (dropWhile is_space s)))"

text \<open>\<^verbatim>\<open>str.split(',')\<close>: the pieces between commas, empty pieces kept.\<close>

fun split_comma_from :: "string \<Rightarrow> string \<Rightarrow> string list" where
  "split_comma_from cur [] = [cur]"
| "split_comma_from cur (c # cs) =
     (if c = CHR '','' then cur # split_comma_from [] cs
      else split_comma_from (cur @ [c]) cs)"

definition split_comma :: "string \<Rightarrow> string list" where
  "split_comma s = split_comma_from [] s"

subsection \<open>Parameter descriptors\<close>

text \<open>The fields of the class \<^verbatim>\<open>ParameterInfo\<close>.\<close>

record ParameterInfo =
  p_name :: string
  p_dtype :: "dtype option"
  p_ctype :: "string option"
  p_raw :: bool
  p_is_const :: bool

text \<open>
  The loop over the modifier tokens \<^verbatim>\<open>s[:-2]\<close>: it returns the value of
  \<^verbatim>\<open>self.raw\<close>, that starts as \<open>False\<close>.
\<close>

fun modifiers :: "string list \<Rightarrow> bool \<Rightarrow> error + bool" where
  "modifiers [] r = Inr r"
| "modifiers (i # rest) r =
     (if i = ''raw'' then modifiers rest True
      else Inl (Exception (''Unknown keyward \"'' @ i @ ''\"'')))"

text \<open>
  \<^verbatim>\<open>ParameterInfo.__init__\<close>. The constructor \<^verbatim>\<open>numpy.dtype\<close> on a string
  belongs to numpy and is a parameter of the model: it returns the dtype the string
  denotes, or raises.
\<close>

definition ParameterInfo_init ::
  "(string \<Rightarrow> error + dtype) \<Rightarrow> string \<Rightarrow> bool \<Rightarrow> error + ParameterInfo" where
  "ParameterInfo_init numpy_dtype str is_const =
     (let s = split_ws str in
      if length s < 2 then Inl (Exception (''Syntax error: '' @ str))
      else
        let t = s ! (length s - 2); nm = s ! (length s - 1) in
        case (if t = ''CIndexer'' then Inr (None, None)
              else if length t = 1 then Inr (None, Some t)
              else
                (case numpy_dtype t of
                   Inl e \<Rightarrow> Inl e
                 | Inr d \<Rightarrow>
                     if dtype_name d \<noteq> t then Inl (ValueError (''Wrong type '' @ t))
                     else
                       (case get_typename (Some d) of
                          Inl e \<Rightarrow> Inl e
                        | Inr c \<Rightarrow> Inr (Some d, Some c)))) of
          Inl e \<Rightarrow> Inl e
        | Inr (dt, ct) \<Rightarrow>
            (case modifiers (take (length s - 2) s) False of
               Inl e \<Rightarrow> Inl e
             | Inr r \<Rightarrow>
                 Inr \<lparr>p_name = nm, p_dtype = dt, p_ctype = ct, p_raw = r,
                      p_is_const = is_const\<rparr>))"

text \<open>A tuple built by a generator that may raise: the first exception wins.\<close>

fun collect :: "('a \<Rightarrow> error + 'b) \<Rightarrow> 'a list \<Rightarrow> error + 'b list" where
  "collect f [] = Inr []"
| "collect f (x # xs) =
     (case f x of
        Inl e \<Rightarrow> Inl e
      | Inr y \<Rightarrow> (case collect f xs of Inl e \<Rightarrow> Inl e | Inr ys \<Rightarrow> Inr (y # ys)))"

text \<open>
  \<^verbatim>\<open>_get_param_info\<close>. Its decorator \<^verbatim>\<open>util.memoize()\<close> stores the result of a
  function that reads no state, so the value of a call is the value of the body.
\<close>

definition get_param_info ::
  "(string \<Rightarrow> error + dtype) \<Rightarrow> string \<Rightarrow> bool \<Rightarrow> error + ParameterInfo list" where
  "get_param_info numpy_dtype s is_const =
     (if length s = 0 then Inr []
      else collect (\<lambda>i. ParameterInfo_init numpy_dtype i is_const) (split_comma (strip s)))"

subsection \<open>Arrays, arguments and the state of the process\<close>

text \<open>
  A \<^verbatim>\<open>cupy.ndarray\<close> as far as this module reads it: element type, shape,
  strides, the device of its memory and the buffer it aliases. A view shares
  \<open>a_data\<close> with its base.
\<close>

record ndarray =
  a_dtype :: dtype
  a_shape :: "int list"
  a_strides :: "int list"
  a_device :: int
  a_data :: nat

text \<open>
  The values a caller can pass. The numeric payload of a scalar plays no part in
  dispatch and is left out; \<open>IndexerArg\<close> is a \<^verbatim>\<open>carray.Indexer\<close> with its
  shape, \<open>Unsupported\<close> any other Python object.
\<close>

datatype arg =
    Ndarray ndarray
  | HostNdarray
  | PyInt
  | PyFloat
  | PyBool
  | NumpyScalar dtype
  | IndexerArg "int list"
  | PyNone
  | Unsupported

fun is_ndarray :: "arg \<Rightarrow> bool" where
  "is_ndarray (Ndarray x) = True"
| "is_ndarray a = False"

text \<open>
  \<^verbatim>\<open>isinstance(arg, _scalar_type)\<close>: the Python scalars and the numpy scalar types
  of the table's element types.
\<close>

fun is_scalar :: "arg \<Rightarrow> bool" where
  "is_scalar PyInt = True"
| "is_scalar PyFloat = True"
| "is_scalar PyBool = True"
| "is_scalar (NumpyScalar d) = (typenames d \<noteq> None)"
| "is_scalar a = False"

text \<open>The type object of an argument, as \<^verbatim>\<open>_get_args_info\<close> records it.\<close>

datatype arg_type = T_ndarray | T_indexer | T_scalar dtype

text \<open>
  A compiled kernel: the function object \<^verbatim>\<open>module.get_function(name)\<close>.
  \<open>Function m n\<close> is the entry point \<open>n\<close> of the module with the handle \<open>m\<close>; the
  handle is what the native compiler returned.
\<close>

datatype kernel = Function nat string

text \<open>
  The keyword arguments an \<^verbatim>\<open>ElementwiseKernel\<close> forwards to
  \<^verbatim>\<open>_get_simple_elementwise_kernel\<close>; \<open>None\<close> is a keyword that was not given.
  The compiler options are a Python sequence of strings: the default is the empty
  tuple, the docstring of \<^verbatim>\<open>ElementwiseKernel\<close> asks for a list.
\<close>

datatype sequence = PyTuple "string list" | PyList "string list"

fun items :: "sequence \<Rightarrow> string list" where
  "items (PyTuple xs) = xs"
| "items (PyList xs) = xs"

record kernel_kwargs =
  kw_loop_prep :: "string option"
  kw_after_loop :: "string option"
  kw_options :: "sequence option"

text \<open>
  \<^verbatim>\<open>frozenset(kwargs.items())\<close> hashes every keyword value: a string and a tuple of
  strings have a hash, a list has none.
\<close>

definition hashable_kwargs :: "kernel_kwargs \<Rightarrow> bool" where
  "hashable_kwargs kw = (case kw_options kw of Some (PyList xs) \<Rightarrow> False | _ \<Rightarrow> True)"

type_synonym args_info = "(arg_type \<times> dtype option \<times> nat) list"

type_synonym type_items = "(string option \<times> dtype) list"

text \<open>The memo keys \<^verbatim>\<open>(args, frozenset(kwargs.items()))\<close> of the three kernel builders.\<close>

type_synonym simple_key = "(string \<times> string \<times> string \<times> string) \<times> kernel_kwargs"

type_synonym elementwise_key =
  "(args_info \<times> type_items \<times> ParameterInfo list \<times> string \<times> string \<times> string) \<times> kernel_kwargs"

type_synonym ufunc_key =
  "dtype list \<times> dtype list \<times> string \<times> args_info \<times> dtype list \<times> ParameterInfo list
     \<times> string \<times> string"

text \<open>
  A request to the native compiler: the device that is current, the text of the module
  and the compiler options. The native compiler is not among the sources; it is a
  parameter of the model. It sees every request the process has made, the last one
  being the one to serve, and returns the handle of a loaded module or raises.
\<close>

type_synonym request = "int \<times> string \<times> string list"

type_synonym native_compiler = "request list \<Rightarrow> error + nat"

text \<open>
  The state of the process this module reads and writes: the current device
  (\<^verbatim>\<open>Device().id\<close>), the memo of each decorated kernel builder
  (\<^verbatim>\<open>f._cupy_dev_memo\<close>, a dictionary per device id), the kernel launches so far
  (kernel, size, arguments), and the number of arrays allocated. Three fields record
  what the properties below speak about and the code does not store: the native compiler the
  process is linked with, the requests made to it so far, and the number of times the
  body of \<^verbatim>\<open>_get_elementwise_kernel\<close> or of \<^verbatim>\<open>_get_ufunc_kernel\<close>, which
  synthesize the source of a kernel, has been entered.
\<close>

record cupy_state =
  current_device :: int
  simple_memo :: "int \<Rightarrow> simple_key \<rightharpoonup> kernel"
  elementwise_memo :: "int \<Rightarrow> elementwise_key \<rightharpoonup> kernel"
  ufunc_memo :: "int \<Rightarrow> ufunc_key \<rightharpoonup> kernel"
  compiler :: native_compiler
  compiled :: "request list"
  synthesized :: nat
  launched :: "(kernel \<times> int \<times> arg list) list"
  allocated :: nat

text \<open>
  A process linked with the native compiler \<open>c\<close> that has compiled and allocated
  nothing, with device \<open>d\<close> current.
\<close>

definition init_state :: "native_compiler \<Rightarrow> int \<Rightarrow> cupy_state" where
  "init_state c d =
     \<lparr>current_device = d, simple_memo = (\<lambda>_. Map.empty), elementwise_memo = (\<lambda>_. Map.empty),
      ufunc_memo = (\<lambda>_. Map.empty), compiler = c, compiled = [], synthesized = 0,
      launched = [], allocated = 0\<rparr>"

text \<open>\<^verbatim>\<open>Device.use\<close>.\<close>

definition use :: "int \<Rightarrow> cupy_state \<Rightarrow> cupy_state" where
  "use d st = st\<lparr>current_device := d\<rparr>"

subsection \<open>Argument checks\<close>

text \<open>\<^verbatim>\<open>_get_ndarray_dtype\<close>.\<close>

fun ndarray_dtype :: "arg \<Rightarrow> dtype option" where
  "ndarray_dtype (Ndarray x) = Some (a_dtype x)"
| "ndarray_dtype a = None"

definition get_ndarray_dtype :: "arg list \<Rightarrow> dtype option list" where
  "get_ndarray_dtype args = map ndarray_dtype args"

text \<open>\<^verbatim>\<open>_check_args\<close>, with the id of the current device.\<close>

fun check_args :: "int \<Rightarrow> arg list \<Rightarrow> error + unit" where
  "check_args dev [] = Inr ()"
| "check_args dev (Ndarray x # rest) =
     (if a_device x = dev then check_args dev rest
      else Inl (ValueError ''Array device must be same as the current device''))"
| "check_args dev (a # rest) =
     (if is_scalar a then check_args dev rest
      else Inl (TypeError ''Unsupported type''))"

text \<open>
  The loop of \<^verbatim>\<open>ElementwiseKernel.__call__\<close> that refuses host arrays
  (\<^verbatim>\<open>isinstance(i, numpy.ndarray)\<close>).
\<close>

fun reject_host_arrays :: "arg list \<Rightarrow> error + unit" where
  "reject_host_arrays [] = Inr ()"
| "reject_host_arrays (HostNdarray # rest) = Inl (TypeError ''Unsupported type'')"
| "reject_host_arrays (a # rest) = reject_host_arrays rest"

subsection \<open>Broadcasting\<close>

text \<open>
  Modelled from the spec: \<^verbatim>\<open>cupy.broadcast\<close> is not among the sources. Shapes are
  aligned at the right; two aligned extents must be equal or one of them 1; a missing
  leading axis counts as extent 1. The lists below are reversed shapes, so that aligned
  axes stand at the same position.
\<close>

fun broadcast_extents :: "int list \<Rightarrow> int list \<Rightarrow> error + int list" where
  "broadcast_extents [] ys = Inr ys"
| "broadcast_extents (x # xs) [] = Inr (x # xs)"
| "broadcast_extents (x # xs) (y # ys) =
     (if x = y \<or> y = 1 then
        (case broadcast_extents xs ys of Inl e \<Rightarrow> Inl e | Inr r \<Rightarrow> Inr (x # r))
      else if x = 1 then
        (case broadcast_extents xs ys of Inl e \<Rightarrow> Inl e | Inr r \<Rightarrow> Inr (y # r))
      else Inl (ValueError ''Broadcasting failed''))"

text \<open>The common reversed shape of the arrays among the arguments, from \<open>acc\<close> on.\<close>

fun broadcast_shape :: "arg list \<Rightarrow> int list \<Rightarrow> error + int list" where
  "broadcast_shape [] acc = Inr acc"
| "broadcast_shape (Ndarray x # rest) acc =
     (case broadcast_extents acc (rev (a_shape x)) of
        Inl e \<Rightarrow> Inl e
      | Inr acc' \<Rightarrow> broadcast_shape rest acc')"
| "broadcast_shape (a # rest) acc = broadcast_shape rest acc"

text \<open>
  The strides of the view of an array under a broadcast shape (all three lists
  reversed): an axis the array has with the same extent keeps its stride, a replicated
  or missing axis has stride 0.
\<close>

fun broadcast_strides :: "int list \<Rightarrow> int list \<Rightarrow> int list \<Rightarrow> int list" where
  "broadcast_strides [] es ss = []"
| "broadcast_strides (t # ts) (e # es) (s # ss) =
     (if e = t then s else 0) # broadcast_strides ts es ss"
| "broadcast_strides (t # ts) es ss = 0 # broadcast_strides ts [] []"

text \<open>An array becomes its view of the broadcast shape; any other value passes through.\<close>

fun broadcast_to :: "int list \<Rightarrow> arg \<Rightarrow> arg" where
  "broadcast_to shape (Ndarray x) =
     Ndarray (x\<lparr>a_shape := shape,
               a_strides := rev (broadcast_strides (rev shape) (rev (a_shape x))
                                   (rev (a_strides x)))\<rparr>)"
| "broadcast_to shape a = a"

record broadcast_result =
  b_shape :: "int list"
  b_size :: int
  b_values :: "arg list"

definition cupy_broadcast :: "arg list \<Rightarrow> error + broadcast_result" where
  "cupy_broadcast arrays =
     (case broadcast_shape arrays [] of
        Inl e \<Rightarrow> Inl e
      | Inr r \<Rightarrow>
          Inr \<lparr>b_shape = rev r, b_size = prod_list r,
               b_values = map (broadcast_to (rev r)) arrays\<rparr>)"

text \<open>
  \<^verbatim>\<open>_broadcast\<close>: every argument that is not a non-raw array enters the broadcast as
  \<^verbatim>\<open>None\<close>, and comes back as itself. The flag \<open>raise_undecided\<close> is the
  source's \<^verbatim>\<open>size_error\<close>.
\<close>

definition broadcast ::
  "arg list \<Rightarrow> ParameterInfo list \<Rightarrow> bool \<Rightarrow> error + (broadcast_result \<times> arg list)" where
  "broadcast args params raise_undecided =
     (case cupy_broadcast
             (map (\<lambda>(p, a). if \<not> p_raw p \<and> is_ndarray a then a else PyNone)
                (zip params args)) of
        Inl e \<Rightarrow> Inl e
      | Inr brod \<Rightarrow>
          if raise_undecided \<and> list_all (\<lambda>i. i = PyNone) (b_values brod)
          then Inl (ValueError ''Loop size is Undecided'')
          else Inr (brod, map (\<lambda>(a, b). if a = PyNone then b else a)
                            (zip (b_values brod) args)))"

subsection \<open>Type resolution\<close>

text \<open>
  The dictionary \<^verbatim>\<open>type_dict\<close>, as the list of its items in the order the keys were
  inserted. The key is \<^verbatim>\<open>p.ctype\<close>, the tag of a generic parameter.
\<close>

type_synonym type_dict = "(string option \<times> dtype) list"

text \<open>
  The loop of \<^verbatim>\<open>_decide_params_type\<close> over the output parameters and the dtypes of
  the supplied output arguments.
\<close>

fun decide_out_loop :: "(ParameterInfo \<times> dtype option) list \<Rightarrow> type_dict \<Rightarrow> error + type_dict" where
  "decide_out_loop [] td = Inr td"
| "decide_out_loop ((p, a) # rest) td =
     (case a of
        None \<Rightarrow> Inl (TypeError ''Output arguments must be cupy.ndarray'')
      | Some a' \<Rightarrow>
          (case p_dtype p of
             Some d \<Rightarrow>
               if a' \<noteq> d then Inl (TypeError ''Type is mismatched %s'')
               else decide_out_loop rest td
           | None \<Rightarrow>
               (case map_of td (p_ctype p) of
                  Some t \<Rightarrow>
                    if t \<noteq> a' then Inl (TypeError ''Type is mismatched %s'')
                    else decide_out_loop rest td
                | None \<Rightarrow> decide_out_loop rest (td @ [(p_ctype p, a')]))))"

text \<open>
  The loop over the input parameters. An argument without dtype (a scalar) is passed
  over; the list \<^verbatim>\<open>unknown_ctype\<close> the source fills there is never read and is left
  out. At a conflict of a generic tag the source formats a one-place format string with
  a tuple of four, which itself raises the TypeError of the last branch.
\<close>

fun decide_in_loop :: "(ParameterInfo \<times> dtype option) list \<Rightarrow> type_dict \<Rightarrow> error + type_dict" where
  "decide_in_loop [] td = Inr td"
| "decide_in_loop ((p, a) # rest) td =
     (case a of
        None \<Rightarrow> decide_in_loop rest td
      | Some a' \<Rightarrow>
          (case p_dtype p of
             Some d \<Rightarrow>
               if a' \<noteq> d then Inl (TypeError ''Type is mismatched %s'')
               else decide_in_loop rest td
           | None \<Rightarrow>
               (case map_of td (p_ctype p) of
                  Some t \<Rightarrow>
                    if t \<noteq> a'
                    then Inl (TypeError ''not all arguments converted during string formatting'')
                    else decide_in_loop rest td
                | None \<Rightarrow> decide_in_loop rest (td @ [(p_ctype p, a')]))))"

text \<open>\<^verbatim>\<open>p.dtype if p.dtype is not None else type_dict[p.ctype]\<close>.\<close>

definition resolve_type :: "type_dict \<Rightarrow> ParameterInfo \<Rightarrow> error + dtype" where
  "resolve_type td p =
     (case p_dtype p of
        Some d \<Rightarrow> Inr d
      | None \<Rightarrow>
          (case map_of td (p_ctype p) of
             None \<Rightarrow> Inl (KeyError (case p_ctype p of None \<Rightarrow> ''None'' | Some c \<Rightarrow> c))
           | Some d \<Rightarrow> Inr d))"

text \<open>
  \<^verbatim>\<open>_decide_params_type\<close>. The body reads no state, so the decorator
  \<^verbatim>\<open>util.memoize(for_each_device=True)\<close> does not change the value of a call. The
  third component is \<^verbatim>\<open>tuple(type_dict.items())\<close>.
\<close>

definition decide_params_type ::
  "ParameterInfo list \<Rightarrow> ParameterInfo list \<Rightarrow> dtype option list \<Rightarrow> dtype option list
     \<Rightarrow> error + (dtype list \<times> dtype list \<times> type_dict)" where
  "decide_params_type in_params out_params in_args_dtype out_args_dtype =
     (case (if out_args_dtype \<noteq> [] then
              (if length out_params \<noteq> length out_args_dtype then Inl AssertionError
               else decide_out_loop (zip out_params out_args_dtype) [])
            else Inr []) of
        Inl e \<Rightarrow> Inl e
      | Inr td \<Rightarrow>
          if length in_params \<noteq> length in_args_dtype then Inl AssertionError
          else
            (case decide_in_loop (zip in_params in_args_dtype) td of
               Inl e \<Rightarrow> Inl e
             | Inr td' \<Rightarrow>
                 (case collect (resolve_type td') in_params of
                    Inl e \<Rightarrow> Inl e
                  | Inr in_types \<Rightarrow>
                      (case collect (resolve_type td') out_params of
                         Inl e \<Rightarrow> Inl e
                       | Inr out_types \<Rightarrow> Inr (in_types, out_types, td')))))"

subsection \<open>Output arrays\<close>

text \<open>
  Modelled from the spec: \<^verbatim>\<open>cupy.empty\<close> is not among the sources. The array
  container returns an empty array of the shape and type asked for: a new buffer on the
  current device, laid out contiguously in row-major order.
\<close>

fun itemsize :: "dtype \<Rightarrow> int" where
  "itemsize Float64 = 8"
| "itemsize Float32 = 4"
| "itemsize Float16 = 2"
| "itemsize Int64 = 8"
| "itemsize Int32 = 4"
| "itemsize Int16 = 2"
| "itemsize Int8 = 1"
| "itemsize UInt64 = 8"
| "itemsize UInt32 = 4"
| "itemsize UInt16 = 2"
| "itemsize UInt8 = 1"
| "itemsize Bool = 1"
| "itemsize (OtherDtype n) = 1"

fun c_strides :: "int list \<Rightarrow> int \<Rightarrow> int list" where
  "c_strides [] sz = []"
| "c_strides (e # es) sz = (prod_list es * sz) # c_strides es sz"

definition cupy_empty :: "int list \<Rightarrow> dtype \<Rightarrow> cupy_state \<Rightarrow> ndarray \<times> cupy_state" where
  "cupy_empty shape t st =
     (\<lparr>a_dtype = t, a_shape = shape, a_strides = c_strides shape (itemsize t),
       a_device = current_device st, a_data = allocated st\<rparr>,
      st\<lparr>allocated := Suc (allocated st)\<rparr>)"

text \<open>\<^verbatim>\<open>tuple(cupy.empty(shape=out_shape, dtype=t) for t in out_types)\<close>.\<close>

fun empties :: "int list \<Rightarrow> dtype list \<Rightarrow> cupy_state \<Rightarrow> arg list \<times> cupy_state" where
  "empties shape [] st = ([], st)"
| "empties shape (t # ts) st =
     (case cupy_empty shape t st of
        (x, st') \<Rightarrow> (case empties shape ts st' of (xs, st'') \<Rightarrow> (Ndarray x # xs, st'')))"

text \<open>
  The loop of \<^verbatim>\<open>_get_out_args\<close> over \<^verbatim>\<open>enumerate(out_args)\<close>, from index
  \<open>i\<close> on.
\<close>

fun check_out_args ::
  "nat \<Rightarrow> arg list \<Rightarrow> int list \<Rightarrow> ParameterInfo list option \<Rightarrow> error + unit" where
  "check_out_args i [] out_shape out_params = Inr ()"
| "check_out_args i (Ndarray x # rest) out_shape out_params =
     (if a_shape x \<noteq> out_shape then
        (case out_params of
           None \<Rightarrow> Inl (ValueError ''Out shape is mismatched'')
         | Some ps \<Rightarrow>
             if length ps \<le> i then Inl (IndexError ''tuple index out of range'')
             else if \<not> p_raw (ps ! i) then Inl (ValueError ''Out shape is mismatched'')
             else check_out_args (Suc i) rest out_shape out_params)
      else check_out_args (Suc i) rest out_shape out_params)"
| "check_out_args i (a # rest) out_shape out_params =
     Inl (TypeError ''Output arguments type must be cupy.ndarray'')"

text \<open>\<^verbatim>\<open>_get_out_args\<close>; \<open>out_params = None\<close> is the default of the source.\<close>

definition get_out_args ::
  "arg list \<Rightarrow> arg list \<Rightarrow> dtype list \<Rightarrow> int list \<Rightarrow> ParameterInfo list option
     \<Rightarrow> cupy_state \<Rightarrow> (error + arg list) \<times> cupy_state" where
  "get_out_args in_args out_args out_types out_shape out_params st =
     (if length out_args = 0 then
        (if (case out_params of None \<Rightarrow> False | Some ps \<Rightarrow> list_ex p_raw ps)
         then (Inl (ValueError ''Output array size is Undecided''), st)
         else (case empties out_shape out_types st of (arrs, st') \<Rightarrow> (Inr arrs, st')))
      else
        (case check_out_args 0 out_args out_shape out_params of
           Inl e \<Rightarrow> (Inl e, st)
         | Inr u \<Rightarrow> (Inr out_args, st)))"

subsection \<open>Dimension reduction\<close>

text \<open>
  A \<^verbatim>\<open>carray.Indexer\<close> is given by its shape: \<^verbatim>\<open>ndim\<close> is the length of the shape
  and \<^verbatim>\<open>size\<close> the product of its extents.

  The inner loop of \<^verbatim>\<open>_reduce_dims\<close> at axis \<open>i\<close>: \<open>Inr False\<close> is the
  \<^verbatim>\<open>break\<close>, \<open>Inr True\<close> the \<^verbatim>\<open>else\<close> branch of the \<^verbatim>\<open>for\<close>. Reading
  \<^verbatim>\<open>strides[i]\<close> beyond the strides of an array raises IndexError.
\<close>

fun contiguous_at :: "nat \<Rightarrow> int list \<Rightarrow> ndarray list \<Rightarrow> error + bool" where
  "contiguous_at i shape [] = Inr True"
| "contiguous_at i shape (arg # rest) =
     (let strides = a_strides arg in
      if length strides \<le> i then Inl (IndexError ''tuple index out of range'')
      else if strides ! i * shape ! i \<noteq> strides ! (i - 1) then Inr False
      else contiguous_at i shape rest)"

text \<open>The outer loop, over the axes \<^verbatim>\<open>range(1, len(shape))\<close> that are still to come.\<close>

fun merge_axes :: "nat list \<Rightarrow> int list \<Rightarrow> ndarray list \<Rightarrow> error + int list" where
  "merge_axes [] shape array_args = Inr shape"
| "merge_axes (i # rest) shape array_args =
     (case contiguous_at i shape array_args of
        Inl e \<Rightarrow> Inl e
      | Inr c \<Rightarrow>
          if c then
            merge_axes rest ((shape[i := shape ! i * shape ! (i - 1)])[i - 1 := 1]) array_args
          else merge_axes rest shape array_args)"

text \<open>
  \<^verbatim>\<open>tuple(s for i, s in enumerate(arg.strides) if shape[i] != 1)\<close>: the strides of
  the axes that are kept.
\<close>

fun keep_strides :: "int list \<Rightarrow> int list \<Rightarrow> error + int list" where
  "keep_strides [] shape = Inr []"
| "keep_strides (s # ss) [] = Inl (IndexError ''list index out of range'')"
| "keep_strides (s # ss) (d # ds) =
     (case keep_strides ss ds of
        Inl e \<Rightarrow> Inl e
      | Inr r \<Rightarrow> Inr (if d \<noteq> 1 then s # r else r))"

text \<open>The non-raw arrays among the arguments: \<^verbatim>\<open>array_args\<close>.\<close>

fun array_args_of :: "(arg \<times> bool) list \<Rightarrow> ndarray list" where
  "array_args_of [] = []"
| "array_args_of ((Ndarray x, f) # rest) = (if f then x # array_args_of rest else array_args_of rest)"
| "array_args_of ((a, f) # rest) = array_args_of rest"

text \<open>
  The loop that replaces every flagged array by a view of the new shape. The list of
  flags is as long as the shorter of the arguments and the parameters; reading a flag
  beyond it raises IndexError.
\<close>

fun reshape_args :: "arg list \<Rightarrow> bool list \<Rightarrow> int list \<Rightarrow> int list \<Rightarrow> error + arg list" where
  "reshape_args [] flags shape new_shape = Inr []"
| "reshape_args (a # rest) [] shape new_shape = Inl (IndexError ''list index out of range'')"
| "reshape_args (a # rest) (f # fs) shape new_shape =
     (case (case a of
              Ndarray x \<Rightarrow>
                if f then
                  (case keep_strides (a_strides x) shape of
                     Inl e \<Rightarrow> Inl e
                   | Inr new_strides \<Rightarrow>
                       Inr (Ndarray (x\<lparr>a_shape := new_shape, a_strides := new_strides\<rparr>)))
                else Inr a
            | _ \<Rightarrow> Inr a) of
        Inl e \<Rightarrow> Inl e
      | Inr a' \<Rightarrow>
          (case reshape_args rest fs shape new_shape of
             Inl e \<Rightarrow> Inl e
           | Inr r \<Rightarrow> Inr (a' # r)))"

text \<open>
  \<^verbatim>\<open>_reduce_dims\<close>. The third argument and the second result are the shape of the
  indexer, which the source updates in place.
\<close>

definition reduce_dims ::
  "arg list \<Rightarrow> ParameterInfo list \<Rightarrow> int list \<Rightarrow> error + (arg list \<times> int list)" where
  "reduce_dims args params indexer =
     (if length indexer \<le> 1 then Inr (args, indexer)
      else
        let is_array_flags = map (\<lambda>(a, p). \<not> p_raw p \<and> is_ndarray a) (zip args params);
            array_args = array_args_of (zip args is_array_flags)
        in
          (case merge_axes [1..<length indexer] indexer array_args of
             Inl e \<Rightarrow> Inl e
           | Inr shape \<Rightarrow>
               let new_shape = filter (\<lambda>dim. dim \<noteq> 1) shape in
               if new_shape = indexer then Inr (args, indexer)
               else
                 (case reshape_args args is_array_flags shape new_shape of
                    Inl e \<Rightarrow> Inl e
                  | Inr new_args \<Rightarrow> Inr (new_args, new_shape))))"

text \<open>
  \<^verbatim>\<open>_get_inout_args\<close>. Both callers pass a tuple; \<^verbatim>\<open>_reduce_dims\<close> returns a
  list, so with \<open>reduce_dims = False\<close> the \<^verbatim>\<open>append\<close> is called on the tuple and
  raises AttributeError. The second result is the indexer after the reduction.
\<close>

definition get_inout_args ::
  "arg list \<Rightarrow> int list \<Rightarrow> ParameterInfo list \<Rightarrow> bool \<Rightarrow> error + (arg list \<times> int list)" where
  "get_inout_args args indexer params rd =
     (if rd then
        (case reduce_dims args params indexer of
           Inl e \<Rightarrow> Inl e
         | Inr (args', indexer') \<Rightarrow> Inr (args' @ [IndexerArg indexer'], indexer'))
      else Inl (AttributeError ''tuple object has no attribute append''))"

text \<open>
  \<^verbatim>\<open>_get_args_info\<close>: type, dtype and \<^verbatim>\<open>ndim\<close> of every argument. A Python
  scalar has no attribute \<^verbatim>\<open>ndim\<close>; at this point the callers have turned every
  scalar into a numpy scalar.
\<close>

fun arg_info :: "arg \<Rightarrow> error + (arg_type \<times> dtype option \<times> nat)" where
  "arg_info (Ndarray x) = Inr (T_ndarray, Some (a_dtype x), length (a_shape x))"
| "arg_info (NumpyScalar d) = Inr (T_scalar d, Some d, 0)"
| "arg_info (IndexerArg sh) = Inr (T_indexer, None, length sh)"
| "arg_info a = Inl (AttributeError ''object has no attribute ndim'')"

definition get_args_info :: "arg list \<Rightarrow> error + args_info" where
  "get_args_info args = collect arg_info args"

subsection \<open>Kernel source\<close>

text \<open>\<^verbatim>\<open>'{}'.format(n)\<close> for a natural number, and \<^verbatim>\<open>sep.join(xs)\<close>.\<close>

fun str_nat :: "nat \<Rightarrow> string" where
  "str_nat n =
     (if n < 10 then [char_of (48 + n)]
      else str_nat (n div 10) @ [char_of (48 + n mod 10)])"

fun join :: "string \<Rightarrow> string list \<Rightarrow> string" where
  "join sep [] = []"
| "join sep [x] = x"
| "join sep (x # y # ys) = x @ sep @ join sep (y # ys)"

definition newline :: string where
  "newline = [CHR 0x0A]"

text \<open>The tag of a parameter as \<^verbatim>\<open>format\<close> prints it.\<close>

definition str_ctype :: "string option \<Rightarrow> string" where
  "str_ctype c = (case c of None \<Rightarrow> ''None'' | Some t \<Rightarrow> t)"

text \<open>One step of the loop of \<^verbatim>\<open>_get_kernel_params\<close>.\<close>

definition kernel_param :: "ParameterInfo \<times> (arg_type \<times> dtype option \<times> nat) \<Rightarrow> error + string" where
  "kernel_param pa =
     (case pa of (p, (ty, dt, ndim)) \<Rightarrow>
        let is_array = (ty = T_ndarray) in
        (case (if ty = T_indexer then Inr (''CIndexer<'' @ str_nat ndim @ ''>'')
               else
                 (case get_typename dt of
                    Inl e \<Rightarrow> Inl e
                  | Inr t \<Rightarrow>
                      if is_array then Inr (''CArray<'' @ t @ '', '' @ str_nat ndim @ ''>'')
                      else Inr t)) of
           Inl e \<Rightarrow> Inl e
         | Inr t \<Rightarrow>
             Inr ((if p_is_const p then ''const '' else []) @ t @ '' '' @
                  (if is_array \<and> \<not> p_raw p then ''_raw_'' else []) @ p_name p)))"

definition get_kernel_params :: "ParameterInfo list \<Rightarrow> args_info \<Rightarrow> error + string" where
  "get_kernel_params params args_info =
     (case collect kernel_param (zip params args_info) of
        Inl e \<Rightarrow> Inl e
      | Inr ret \<Rightarrow> Inr (join '', '' ret))"

text \<open>The text of the module: the template of \<^verbatim>\<open>_get_simple_elementwise_kernel\<close>.\<close>

definition module_code ::
  "string \<Rightarrow> string \<Rightarrow> string \<Rightarrow> string \<Rightarrow> string \<Rightarrow> string \<Rightarrow> string" where
  "module_code params operation name preamble loop_prep after_loop =
     newline @ ''    '' @ preamble @ newline @
     ''    extern \"C\" __global__ void '' @ name @ ''('' @ params @ '') {'' @ newline @
     ''      '' @ loop_prep @ '';'' @ newline @
     ''      CUPY_FOR(i, _ind.size()) {'' @ newline @
     ''        _ind.set(i);'' @ newline @
     ''        '' @ operation @ '';'' @ newline @
     ''      }'' @ newline @
     ''      '' @ after_loop @ '';'' @ newline @
     ''    }'' @ newline @ ''    ''"

subsection \<open>The compilation cache\<close>

text \<open>
  Modelled from the spec: \<^verbatim>\<open>carray.compile_with_cache\<close> is not among the sources.
  The native compiler and loader accepts the text of a module and the compiler options
  and returns an opaque handle; a failure surfaces as an exception. Nothing more is
  assumed: the request is recorded and handed to the compiler of the state, whose
  answer is the result.
\<close>

definition compile_with_cache ::
  "string \<Rightarrow> string list \<Rightarrow> cupy_state \<Rightarrow> (error + nat) \<times> cupy_state" where
  "compile_with_cache code options st =
     (let log = compiled st @ [(current_device st, code, options)]
      in (compiler st log, st\<lparr>compiled := log\<rparr>))"

text \<open>
  The decorator \<^verbatim>\<open>memoize\<close> of \<^verbatim>\<open>cuda/device.py\<close>, which the module applies as
  \<^verbatim>\<open>util.memoize(for_each_device=True)\<close>. The first two arguments read and update
  the dictionary \<^verbatim>\<open>f._cupy_dev_memo\<close> of the decorated function; \<open>key\<close> is the
  positional and keyword arguments of the call, and \<open>hashable\<close> tells whether
  \<^verbatim>\<open>arg_key = (args, frozenset(kwargs.items()))\<close> can be built from them: the
  frozenset hashes every keyword value and raises a TypeError on one that has no hash.
  The dictionary of the device that is current at the start of the call is looked up;
  on a miss the body runs, and its result is stored in that same dictionary. An
  exception of the body leaves the call before the store.
\<close>

definition memoize ::
  "(cupy_state \<Rightarrow> int \<Rightarrow> 'k \<rightharpoonup> 'v)
     \<Rightarrow> (((int \<Rightarrow> 'k \<rightharpoonup> 'v) \<Rightarrow> (int \<Rightarrow> 'k \<rightharpoonup> 'v)) \<Rightarrow> cupy_state \<Rightarrow> cupy_state)
     \<Rightarrow> ('k \<Rightarrow> bool)
     \<Rightarrow> ('k \<Rightarrow> cupy_state \<Rightarrow> (error + 'v) \<times> cupy_state)
     \<Rightarrow> 'k \<Rightarrow> cupy_state \<Rightarrow> (error + 'v) \<times> cupy_state" where
  "memoize get_memo update_memo hashable f key st =
     (let dev = current_device st in
      if \<not> hashable key then (Inl (TypeError ''unhashable type''), st)
      else
        case get_memo st dev key of
          Some result \<Rightarrow> (Inr result, st)
        | None \<Rightarrow>
            (case f key st of
               (Inl e, st') \<Rightarrow> (Inl e, st')
             | (Inr result, st') \<Rightarrow>
                 (Inr result, update_memo (\<lambda>m. m(dev := (m dev)(key \<mapsto> result))) st')))"

text \<open>
  The body of \<^verbatim>\<open>_get_simple_elementwise_kernel\<close>: the key holds the four
  positional arguments and the keywords; a keyword that is not given has its default.
\<close>

definition simple_elementwise_kernel_body ::
  "simple_key \<Rightarrow> cupy_state \<Rightarrow> (error + kernel) \<times> cupy_state" where
  "simple_elementwise_kernel_body key st =
     (case key of ((params, operation, name, preamble), kw) \<Rightarrow>
        let loop_prep = (case kw_loop_prep kw of None \<Rightarrow> [] | Some l \<Rightarrow> l);
            after_loop = (case kw_after_loop kw of None \<Rightarrow> [] | Some l \<Rightarrow> l);
            options = (case kw_options kw of None \<Rightarrow> [] | Some l \<Rightarrow> items l)
        in
          (case compile_with_cache
                  (module_code params operation name preamble loop_prep after_loop) options st of
             (Inl e, st') \<Rightarrow> (Inl e, st')
           | (Inr m, st') \<Rightarrow> (Inr (Function m name), st')))"

definition get_simple_elementwise_kernel ::
  "simple_key \<Rightarrow> cupy_state \<Rightarrow> (error + kernel) \<times> cupy_state" where
  "get_simple_elementwise_kernel =
     memoize simple_memo simple_memo_update (\<lambda>key. hashable_kwargs (snd key))
       simple_elementwise_kernel_body"

text \<open>The element-access line of a non-raw array parameter in \<^verbatim>\<open>_get_elementwise_kernel\<close>.\<close>

fun access_lines :: "(ParameterInfo \<times> (arg_type \<times> dtype option \<times> nat)) list \<Rightarrow> string list" where
  "access_lines [] = []"
| "access_lines ((p, a) # rest) =
     (if p_raw p \<or> fst a \<noteq> T_ndarray then access_lines rest
      else
        (if p_is_const p
         then ''const '' @ str_ctype (p_ctype p) @ '' '' @ p_name p @ '' = _raw_'' @ p_name p @
              ''[_ind.get()];''
         else str_ctype (p_ctype p) @ '' &'' @ p_name p @ '' = _raw_'' @ p_name p @
              ''[_ind.get()];'') # access_lines rest)"

definition typedef_line :: "string option \<times> dtype \<Rightarrow> error + string" where
  "typedef_line kv =
     (case kv of (k, v) \<Rightarrow>
        (case get_typename (Some v) of
           Inl e \<Rightarrow> Inl e
         | Inr t \<Rightarrow> Inr (''typedef '' @ t @ '' '' @ str_ctype k @ '';'')))"

text \<open>
  The body of \<^verbatim>\<open>_get_elementwise_kernel\<close>: kernel-source synthesis. Entering the
  body is counted.
\<close>

definition elementwise_kernel_body ::
  "elementwise_key \<Rightarrow> cupy_state \<Rightarrow> (error + kernel) \<times> cupy_state" where
  "elementwise_kernel_body key st0 =
     (let st = st0\<lparr>synthesized := Suc (synthesized st0)\<rparr> in
      case key of ((args_info, types, params, operation, name, preamble), kw) \<Rightarrow>
        (case get_kernel_params params args_info of
           Inl e \<Rightarrow> (Inl e, st)
         | Inr kernel_params \<Rightarrow>
             (case collect typedef_line types of
                Inl e \<Rightarrow> (Inl e, st)
              | Inr typedefs \<Rightarrow>
                  let preamble' = join newline typedefs @ newline @ preamble;
                      op = access_lines (zip params args_info) @ [operation];
                      operation' = join newline op
                  in get_simple_elementwise_kernel
                       ((kernel_params, operation', name, preamble'), kw) st)))"

definition get_elementwise_kernel ::
  "elementwise_key \<Rightarrow> cupy_state \<Rightarrow> (error + kernel) \<times> cupy_state" where
  "get_elementwise_kernel =
     memoize elementwise_memo elementwise_memo_update (\<lambda>key. hashable_kwargs (snd key))
       elementwise_kernel_body"

text \<open>The two loops of \<^verbatim>\<open>_get_ufunc_kernel\<close>: the typedefs and the access lines.\<close>

fun ufunc_in_lines :: "nat \<Rightarrow> dtype list \<Rightarrow> args_info \<Rightarrow> error + (string list \<times> string list)" where
  "ufunc_in_lines i [] info = Inr ([], [])"
| "ufunc_in_lines i (x # xs) info =
     (case get_typename (Some x) of
        Inl e \<Rightarrow> Inl e
      | Inr t \<Rightarrow>
          if length info \<le> i then Inl (IndexError ''tuple index out of range'')
          else
            (case ufunc_in_lines (Suc i) xs info of
               Inl e \<Rightarrow> Inl e
             | Inr (types, op) \<Rightarrow>
                 Inr ((''typedef '' @ t @ '' in'' @ str_nat i @ ''_type;'') # types,
                      (if fst (info ! i) \<noteq> T_ndarray then op
                       else (''const in'' @ str_nat i @ ''_type in'' @ str_nat i @ '' = _raw_in'' @
                             str_nat i @ ''[_ind.get()];'') # op))))"

fun ufunc_out_lines :: "nat \<Rightarrow> dtype list \<Rightarrow> dtype list \<Rightarrow> error + (string list \<times> string list)" where
  "ufunc_out_lines i [] out_raw_types = Inr ([], [])"
| "ufunc_out_lines i (x # xs) out_raw_types =
     (case get_typename (Some x) of
        Inl e \<Rightarrow> Inl e
      | Inr t \<Rightarrow>
          if length out_raw_types \<le> i then Inl (IndexError ''tuple index out of range'')
          else
            (case get_typename (Some (out_raw_types ! i)) of
               Inl e \<Rightarrow> Inl e
             | Inr r \<Rightarrow>
                 (case ufunc_out_lines (Suc i) xs out_raw_types of
                    Inl e \<Rightarrow> Inl e
                  | Inr (types, op) \<Rightarrow>
                      Inr ((''typedef '' @ t @ '' out'' @ str_nat i @ ''_type;'') # types,
                           (r @ '' &out'' @ str_nat i @ '' = _raw_out'' @ str_nat i @
                            ''[_ind.get()];'') # op))))"

text \<open>The body of \<^verbatim>\<open>_get_ufunc_kernel\<close>. Entering the body is counted.\<close>

definition ufunc_kernel_body :: "ufunc_key \<Rightarrow> cupy_state \<Rightarrow> (error + kernel) \<times> cupy_state" where
  "ufunc_kernel_body key st0 =
     (let st = st0\<lparr>synthesized := Suc (synthesized st0)\<rparr> in
      case key of
        (in_types, out_types, routine, args_info, out_raw_types, params, name, preamble) \<Rightarrow>
        (case get_kernel_params params args_info of
           Inl e \<Rightarrow> (Inl e, st)
         | Inr kernel_params \<Rightarrow>
             (case ufunc_in_lines 0 in_types args_info of
                Inl e \<Rightarrow> (Inl e, st)
              | Inr (types_in, op_in) \<Rightarrow>
                  (case ufunc_out_lines 0 out_types out_raw_types of
                     Inl e \<Rightarrow> (Inl e, st)
                   | Inr (types_out, op_out) \<Rightarrow>
                       let operation = join newline (op_in @ op_out @ [routine]);
                           preamble' = join newline (types_in @ types_out @ [preamble])
                       in get_simple_elementwise_kernel
                            ((kernel_params, operation, name, preamble'),
                             \<lparr>kw_loop_prep = None, kw_after_loop = None, kw_options = None\<rparr>)
                            st))))"

text \<open>\<^verbatim>\<open>_get_ufunc_kernel\<close> is called without keywords: the key has a hash.\<close>

definition get_ufunc_kernel :: "ufunc_key \<Rightarrow> cupy_state \<Rightarrow> (error + kernel) \<times> cupy_state" where
  "get_ufunc_kernel = memoize ufunc_memo ufunc_memo_update (\<lambda>key. True) ufunc_kernel_body"

text \<open>
  Modelled from the spec: \<^verbatim>\<open>linear_launch\<close> belongs to the kernel object, which is
  not among the sources: the kernel is invoked once over \<open>size\<close> steps, with the
  arguments in order.
\<close>

definition linear_launch :: "kernel \<Rightarrow> int \<Rightarrow> arg list \<Rightarrow> cupy_state \<Rightarrow> cupy_state" where
  "linear_launch kern sz args st = st\<lparr>launched := launched st @ [(kern, sz, args)]\<rparr>"

subsection \<open>ElementwiseKernel\<close>

text \<open>The attributes of an \<^verbatim>\<open>ElementwiseKernel\<close> object.\<close>

record ElementwiseKernel =
  ek_in_params :: "ParameterInfo list"
  ek_out_params :: "ParameterInfo list"
  ek_nin :: nat
  ek_nout :: nat
  ek_params :: "ParameterInfo list"
  ek_operation :: string
  ek_name :: string
  ek_reduce_dims :: bool
  ek_preamble :: string
  ek_kwargs :: kernel_kwargs

text \<open>
  \<^verbatim>\<open>ElementwiseKernel.__init__\<close>. The three parameter lists are parsed first; the
  check of the reserved name \<^verbatim>\<open>i\<close> is the last statement. The argument \<open>rd\<close> is
  the keyword \<^verbatim>\<open>reduce_dims\<close>.
\<close>

definition ElementwiseKernel_init ::
  "(string \<Rightarrow> error + dtype) \<Rightarrow> string \<Rightarrow> string \<Rightarrow> string \<Rightarrow> string \<Rightarrow> bool \<Rightarrow> string
     \<Rightarrow> kernel_kwargs \<Rightarrow> error + ElementwiseKernel" where
  "ElementwiseKernel_init numpy_dtype in_params out_params operation name rd preamble kwargs =
     (case get_param_info numpy_dtype in_params True of
        Inl e \<Rightarrow> Inl e
      | Inr ips \<Rightarrow>
          (case get_param_info numpy_dtype out_params False of
             Inl e \<Rightarrow> Inl e
           | Inr ops \<Rightarrow>
               (case get_param_info numpy_dtype ''CIndexer _ind'' False of
                  Inl e \<Rightarrow> Inl e
                | Inr param_rest \<Rightarrow>
                    let names = map p_name (ips @ ops) in
                    if ''i'' \<in> set names
                    then Inl (ValueError ''Can not use 'i' as a parameter name'')
                    else
                      Inr \<lparr>ek_in_params = ips, ek_out_params = ops, ek_nin = length ips,
                           ek_nout = length ops, ek_params = ips @ ops @ param_rest,
                           ek_operation = operation, ek_name = name,
                           ek_reduce_dims = rd, ek_preamble = preamble,
                           ek_kwargs = kwargs\<rparr>)))"

text \<open>What a call returns: one array, or the tuple of the output arrays.\<close>

datatype ret = Single arg | Tuple "arg list"

text \<open>\<^verbatim>\<open>ret = out_args; if len(ret) == 1: ret = ret[0]\<close>.\<close>

fun ret_of :: "arg list \<Rightarrow> ret" where
  "ret_of [a] = Single a"
| "ret_of out_args = Tuple out_args"

text \<open>
  \<^verbatim>\<open>x if isinstance(x, cupy.ndarray) else t.type(x)\<close>: a scalar becomes a numpy
  scalar of the resolved type.
\<close>

definition cast_scalar :: "arg \<times> dtype \<Rightarrow> arg" where
  "cast_scalar xt = (case xt of (x, t) \<Rightarrow> if is_ndarray x then x else NumpyScalar t)"

text \<open>What a call has computed when it reaches the test of the size of the broadcast.\<close>

record resolved =
  r_brod :: broadcast_result
  r_in_args :: "arg list"
  r_out_args :: "arg list"
  r_in_types :: "dtype list"
  r_out_types :: "dtype list"
  r_types :: type_dict
  r_ret :: ret
  r_indexer :: "int list"

text \<open>
  \<^verbatim>\<open>ElementwiseKernel.__call__\<close> up to the construction of the indexer: the checks
  of the arguments, broadcasting, type resolution and the output arrays. \<open>n\<close> is the
  keyword \<^verbatim>\<open>size\<close>.
\<close>

definition ElementwiseKernel_resolve ::
  "ElementwiseKernel \<Rightarrow> arg list \<Rightarrow> int option \<Rightarrow> cupy_state
     \<Rightarrow> (error + resolved) \<times> cupy_state" where
  "ElementwiseKernel_resolve self args n st =
     (if \<not> (length args = ek_nin self \<or> length args = ek_nin self + ek_nout self)
      then (Inl (TypeError (''Wrong number of arguments for '' @ ek_name self)), st)
      else
        (case reject_host_arrays args of
           Inl e \<Rightarrow> (Inl e, st)
         | Inr u \<Rightarrow>
        (case check_args (current_device st) args of
           Inl e \<Rightarrow> (Inl e, st)
         | Inr u \<Rightarrow>
        (case broadcast args (ek_params self) (n = None) of
           Inl e \<Rightarrow> (Inl e, st)
         | Inr (brod, val) \<Rightarrow>
        let in_args = take (ek_nin self) val;
            out_args = drop (ek_nin self) val
        in
        (case decide_params_type (ek_in_params self) (ek_out_params self)
                (get_ndarray_dtype in_args) (get_ndarray_dtype out_args) of
           Inl e \<Rightarrow> (Inl e, st)
         | Inr (in_types, out_types, types) \<Rightarrow>
        let in_args' = map cast_scalar (zip in_args in_types) in
        (case get_out_args in_args' out_args out_types (b_shape brod)
                (Some (ek_out_params self)) st of
           (Inl e, st') \<Rightarrow> (Inl e, st')
         | (Inr out_args', st') \<Rightarrow>
             (Inr \<lparr>r_brod = brod, r_in_args = in_args', r_out_args = out_args',
                   r_in_types = in_types, r_out_types = out_types, r_types = types,
                   r_ret = ret_of out_args',
                   r_indexer = (case n of None \<Rightarrow> b_shape brod | Some k \<Rightarrow> [k])\<rparr>,
              st')))))))"

text \<open>
  The rest of \<^verbatim>\<open>ElementwiseKernel.__call__\<close>, after the test of the size: the
  reduction of the dimensions, the compilation cache and the launch.
\<close>

definition ElementwiseKernel_launch ::
  "ElementwiseKernel \<Rightarrow> resolved \<Rightarrow> cupy_state \<Rightarrow> (error + ret) \<times> cupy_state" where
  "ElementwiseKernel_launch self r st =
     (case get_inout_args (r_in_args r @ r_out_args r) (r_indexer r) (ek_params self)
             (ek_reduce_dims self) of
        Inl e \<Rightarrow> (Inl e, st)
      | Inr (inout_args, indexer) \<Rightarrow>
          (case get_args_info inout_args of
             Inl e \<Rightarrow> (Inl e, st)
           | Inr args_info \<Rightarrow>
               (case get_elementwise_kernel
                       ((args_info, r_types r, ek_params self, ek_operation self, ek_name self,
                         ek_preamble self), ek_kwargs self) st of
                  (Inl e, st') \<Rightarrow> (Inl e, st')
                | (Inr kern, st') \<Rightarrow>
                    (Inr (r_ret r), linear_launch kern (prod_list indexer) inout_args st'))))"

text \<open>\<^verbatim>\<open>ElementwiseKernel.__call__\<close>.\<close>

definition ElementwiseKernel_call ::
  "ElementwiseKernel \<Rightarrow> arg list \<Rightarrow> int option \<Rightarrow> cupy_state \<Rightarrow> (error + ret) \<times> cupy_state" where
  "ElementwiseKernel_call self args n st =
     (case ElementwiseKernel_resolve self args n st of
        (Inl e, st') \<Rightarrow> (Inl e, st')
      | (Inr r, st') \<Rightarrow>
          if b_size (r_brod r) = 0 then (Inr (r_ret r), st')
          else ElementwiseKernel_launch self r st')"

subsection \<open>Universal functions\<close>

text \<open>
  A registered operation \<^verbatim>\<open>(in_types, out_types, routine)\<close>, the keys of the
  dictionary \<^verbatim>\<open>_routine_table\<close> (the tuple of the input dtypes, or the requested
  dtype), and the attributes of a \<^verbatim>\<open>ufunc\<close> object. A key of the table is bound to
  the operation found, or to \<^verbatim>\<open>None\<close> when the scan found none.
\<close>

type_synonym routine = "dtype list \<times> dtype list \<times> string"

datatype routine_key = KeyTypes "dtype list" | KeyDtype dtype

record ufunc =
  uf_name :: string
  uf_nin :: nat
  uf_nout :: nat
  uf_nargs :: nat
  uf_ops :: "routine list"
  uf_preamble :: string
  uf_params :: "ParameterInfo list"
  uf_routine_table :: "routine_key \<rightharpoonup> routine option"

text \<open>
  \<^verbatim>\<open>ufunc.__init__\<close>. The descriptors are what \<^verbatim>\<open>ParameterInfo\<close> returns for
  \<^verbatim>\<open>'T in0'\<close>, ..., \<^verbatim>\<open>'T out0'\<close>, ... and \<^verbatim>\<open>'CIndexer _ind'\<close>.
\<close>

definition ufunc_init :: "string \<Rightarrow> nat \<Rightarrow> nat \<Rightarrow> routine list \<Rightarrow> string \<Rightarrow> ufunc" where
  "ufunc_init name nin nout ops preamble =
     \<lparr>uf_name = name, uf_nin = nin, uf_nout = nout, uf_nargs = nin + nout, uf_ops = ops,
      uf_preamble = preamble,
      uf_params =
        map (\<lambda>i. \<lparr>p_name = ''in'' @ str_nat i, p_dtype = None, p_ctype = Some ''T'',
                   p_raw = False, p_is_const = True\<rparr>) [0..<nin] @
        map (\<lambda>i. \<lparr>p_name = ''out'' @ str_nat i, p_dtype = None, p_ctype = Some ''T'',
                   p_raw = False, p_is_const = False\<rparr>) [0..<nout] @
        [\<lparr>p_name = ''_ind'', p_dtype = None, p_ctype = None, p_raw = False,
          p_is_const = False\<rparr>],
      uf_routine_table = Map.empty\<rparr>"

text \<open>
  \<^verbatim>\<open>_guess_routine_from_in_types\<close> and \<^verbatim>\<open>_guess_routine_from_dtype\<close>.
  \<^verbatim>\<open>numpy.can_cast\<close> belongs to numpy and is a parameter of the model.
\<close>

definition guess_routine_from_in_types ::
  "(dtype \<Rightarrow> dtype \<Rightarrow> bool) \<Rightarrow> routine list \<Rightarrow> dtype list \<Rightarrow> routine option" where
  "guess_routine_from_in_types can_cast ops in_types =
     find (\<lambda>op. list_all (\<lambda>(t0, t1). can_cast t0 t1) (zip in_types (fst op))) ops"

definition guess_routine_from_dtype :: "routine list \<Rightarrow> dtype \<Rightarrow> routine option" where
  "guess_routine_from_dtype ops dt =
     find (\<lambda>op. list_all (\<lambda>t. t = dt) (fst (snd op))) ops"

text \<open>\<^verbatim>\<open>i.dtype\<close> of an input argument.\<close>

fun arg_dtype :: "arg \<Rightarrow> error + dtype" where
  "arg_dtype (Ndarray x) = Inr (a_dtype x)"
| "arg_dtype (NumpyScalar d) = Inr d"
| "arg_dtype a = Inl (AttributeError ''object has no attribute dtype'')"

text \<open>
  \<^verbatim>\<open>_guess_routine\<close>: the result and the object with its table updated. The name in
  the message is the name of the operation.
\<close>

definition guess_routine ::
  "(dtype \<Rightarrow> dtype \<Rightarrow> bool) \<Rightarrow> ufunc \<Rightarrow> arg list \<Rightarrow> dtype option \<Rightarrow> (error + routine) \<times> ufunc" where
  "guess_routine can_cast self in_args dt =
     (case (case dt of
              None \<Rightarrow>
                (case collect arg_dtype in_args of
                   Inl e \<Rightarrow> Inl e
                 | Inr ts \<Rightarrow> Inr (KeyTypes ts))
            | Some d \<Rightarrow> Inr (KeyDtype d)) of
        Inl e \<Rightarrow> (Inl e, self)
      | Inr key \<Rightarrow>
          (case (case uf_routine_table self key of
                   Some op \<Rightarrow> (op, self)
                 | None \<Rightarrow>
                     let op = (case key of
                                 KeyTypes ts \<Rightarrow> guess_routine_from_in_types can_cast (uf_ops self) ts
                               | KeyDtype d \<Rightarrow> guess_routine_from_dtype (uf_ops self) d)
                     in (op, self\<lparr>uf_routine_table := (uf_routine_table self)(key \<mapsto> op)\<rparr>)) of
             (Some op, self') \<Rightarrow> (Inr op, self')
           | (None, self') \<Rightarrow>
               (Inl (TypeError (''Wrong type of arguments for '' @ uf_name self)), self')))"

text \<open>
  \<^verbatim>\<open>numpy.dtype(type(i)).type(i)\<close> for a Python scalar: an \<^verbatim>\<open>int\<close> becomes an
  int64 (the C long of the platform), a \<^verbatim>\<open>float\<close> a float64, a \<^verbatim>\<open>bool\<close> a
  bool; every other value is taken as it is.
\<close>

fun numpy_scalar_of :: "arg \<Rightarrow> arg" where
  "numpy_scalar_of PyInt = NumpyScalar Int64"
| "numpy_scalar_of PyFloat = NumpyScalar Float64"
| "numpy_scalar_of PyBool = NumpyScalar Bool"
| "numpy_scalar_of a = a"

text \<open>What a call of a ufunc has computed when it reaches the test of the shape.\<close>

record ufunc_resolved =
  u_brod :: broadcast_result
  u_in_args :: "arg list"
  u_out_args :: "arg list"
  u_in_types :: "dtype list"
  u_out_types :: "dtype list"
  u_routine :: string
  u_ret :: ret

text \<open>
  \<^verbatim>\<open>ufunc.__call__\<close> up to the test of the shape. \<open>out\<close> and \<open>dt\<close> are the
  keywords \<^verbatim>\<open>out\<close> and \<^verbatim>\<open>dtype\<close>. The broadcast takes all positional
  arguments, the output arrays among them.
\<close>

definition ufunc_resolve ::
  "(dtype \<Rightarrow> dtype \<Rightarrow> bool) \<Rightarrow> ufunc \<Rightarrow> arg list \<Rightarrow> arg option \<Rightarrow> dtype option \<Rightarrow> cupy_state
     \<Rightarrow> (error + ufunc_resolved) \<times> ufunc \<times> cupy_state" where
  "ufunc_resolve can_cast self args out dt st =
     (if \<not> (length args = uf_nin self \<or> length args = uf_nargs self)
      then (Inl (TypeError (''Wrong number of arguments for '' @ uf_name self)), self, st)
      else
        (case cupy_broadcast args of
           Inl e \<Rightarrow> (Inl e, self, st)
         | Inr brod \<Rightarrow>
        let in_args = map numpy_scalar_of (take (uf_nin self) (b_values brod)) in
        (case (case out of
                 None \<Rightarrow> Inr (drop (uf_nin self) args)
               | Some a \<Rightarrow>
                   if length (drop (uf_nin self) args) \<noteq> 0
                   then Inl (ValueError
                          ''cannot specify 'out' as both a positional and keyword argument'')
                   else Inr [a]) of
           Inl e \<Rightarrow> (Inl e, self, st)
         | Inr out_args \<Rightarrow>
        (case check_args (current_device st) (in_args @ out_args) of
           Inl e \<Rightarrow> (Inl e, self, st)
         | Inr u \<Rightarrow>
        (case guess_routine can_cast self in_args dt of
           (Inl e, self') \<Rightarrow> (Inl e, self', st)
         | (Inr (in_types, out_types, routine), self') \<Rightarrow>
        let in_args' = map cast_scalar (zip in_args in_types) in
        (case get_out_args in_args' out_args out_types (b_shape brod) None st of
           (Inl e, st') \<Rightarrow> (Inl e, self', st')
         | (Inr out_args', st') \<Rightarrow>
             (Inr \<lparr>u_brod = brod, u_in_args = in_args', u_out_args = out_args',
                   u_in_types = in_types, u_out_types = out_types, u_routine = routine,
                   u_ret = ret_of out_args'\<rparr>,
              self', st')))))))"

text \<open>The rest of \<^verbatim>\<open>ufunc.__call__\<close>: the indexer, the compilation cache and the launch.\<close>

definition ufunc_launch ::
  "ufunc \<Rightarrow> ufunc_resolved \<Rightarrow> cupy_state \<Rightarrow> (error + ret) \<times> cupy_state" where
  "ufunc_launch self r st =
     (case get_inout_args (u_in_args r @ u_out_args r) (b_shape (u_brod r)) (uf_params self)
             True of
        Inl e \<Rightarrow> (Inl e, st)
      | Inr (inout_args, indexer) \<Rightarrow>
          (case get_args_info inout_args of
             Inl e \<Rightarrow> (Inl e, st)
           | Inr args_info \<Rightarrow>
               (case collect arg_dtype (u_out_args r) of
                  Inl e \<Rightarrow> (Inl e, st)
                | Inr out_raw_types \<Rightarrow>
                    (case get_ufunc_kernel
                            (u_in_types r, u_out_types r, u_routine r, args_info, out_raw_types,
                             uf_params self, uf_name self, uf_preamble self) st of
                       (Inl e, st') \<Rightarrow> (Inl e, st')
                     | (Inr kern, st') \<Rightarrow>
                         (Inr (u_ret r),
                          linear_launch kern (prod_list indexer) inout_args st')))))"

text \<open>\<^verbatim>\<open>ufunc.__call__\<close>: the result, the object and the state after the call.\<close>

definition ufunc_call ::
  "(dtype \<Rightarrow> dtype \<Rightarrow> bool) \<Rightarrow> ufunc \<Rightarrow> arg list \<Rightarrow> arg option \<Rightarrow> dtype option \<Rightarrow> cupy_state
     \<Rightarrow> (error + ret) \<times> ufunc \<times> cupy_state" where
  "ufunc_call can_cast self args out dt st =
     (case ufunc_resolve can_cast self args out dt st of
        (Inl e, self', st') \<Rightarrow> (Inl e, self', st')
      | (Inr r, self', st') \<Rightarrow>
          if 0 \<in> set (b_shape (u_brod r)) then (Inr (u_ret r), self', st')
          else (case ufunc_launch self' r st' of (res, st'') \<Rightarrow> (res, self', st'')))"

subsection \<open>Names for the statements\<close>

text \<open>The tokens of an entry of a parameter list: \<^verbatim>\<open>s[-2]\<close> and \<^verbatim>\<open>s[:-2]\<close>.\<close>

definition type_token :: "string \<Rightarrow> string" where
  "type_token str = split_ws str ! (length (split_ws str) - 2)"

definition modifier_tokens :: "string \<Rightarrow> string list" where
  "modifier_tokens str = take (length (split_ws str) - 2) (split_ws str)"

text \<open>
  An instance of \<^verbatim>\<open>numpy.dtype\<close> for the examples: the canonical names of the
  table, the name \<^verbatim>\<open>complex128\<close> of a type outside the table, and the alias
  \<^verbatim>\<open>f4\<close> of float32; any other string raises, as numpy does on one it does not
  understand.
\<close>

definition numpy_dtype_sample :: "string \<Rightarrow> error + dtype" where
  "numpy_dtype_sample t =
     (if t = ''float64'' then Inr Float64
      else if t = ''float32'' then Inr Float32
      else if t = ''float16'' then Inr Float16
      else if t = ''int64'' then Inr Int64
      else if t = ''int32'' then Inr Int32
      else if t = ''int16'' then Inr Int16
      else if t = ''int8'' then Inr Int8
      else if t = ''uint64'' then Inr UInt64
      else if t = ''uint32'' then Inr UInt32
      else if t = ''uint16'' then Inr UInt16
      else if t = ''uint8'' then Inr UInt8
      else if t = ''bool'' then Inr Bool
      else if t = ''complex128'' then Inr (OtherDtype ''complex128'')
      else if t = ''f4'' then Inr Float32
      else Inl (TypeError ''data type not understood''))"

text \<open>
  The branch of \<^verbatim>\<open>ParameterInfo.__init__\<close> on the type token \<open>t\<close>: the dtype and
  the ctype of the descriptor, or the exception raised.
\<close>

definition parse_type_token ::
  "(string \<Rightarrow> error + dtype) \<Rightarrow> string \<Rightarrow> error + (dtype option \<times> string option)" where
  "parse_type_token numpy_dtype t =
     (if t = ''CIndexer'' then Inr (None, None)
      else if length t = 1 then Inr (None, Some t)
      else
        (case numpy_dtype t of
           Inl e \<Rightarrow> Inl e
         | Inr d \<Rightarrow>
             if dtype_name d \<noteq> t then Inl (ValueError (''Wrong type '' @ t))
             else
               (case get_typename (Some d) of
                  Inl e \<Rightarrow> Inl e
                | Inr c \<Rightarrow> Inr (Some d, Some c))))"

text \<open>No keyword given to an \<^verbatim>\<open>ElementwiseKernel\<close>.\<close>

definition no_kwargs :: kernel_kwargs where
  "no_kwargs = \<lparr>kw_loop_prep = None, kw_after_loop = None, kw_options = None\<rparr>"

text \<open>
  The operands \<^verbatim>\<open>_decide_params_type\<close> scans, in its order: the output parameters
  with the dtypes of the supplied output arguments, then the input parameters with the
  dtypes of the input arguments.
\<close>

definition observed ::
  "ParameterInfo list \<Rightarrow> ParameterInfo list \<Rightarrow> dtype option list \<Rightarrow> dtype option list
     \<Rightarrow> (ParameterInfo \<times> dtype option) list" where
  "observed in_params out_params in_args_dtype out_args_dtype =
     zip out_params out_args_dtype @ zip in_params in_args_dtype"

text \<open>
  The observations that can bind a tag, in scanning order: the tag of every generic
  parameter whose operand is an array, with the dtype of that array.
\<close>

fun bindings :: "(ParameterInfo \<times> dtype option) list \<Rightarrow> (string option \<times> dtype) list" where
  "bindings [] = []"
| "bindings ((p, a) # rest) =
     (case a of
        None \<Rightarrow> bindings rest
      | Some d \<Rightarrow> if p_dtype p = None then (p_ctype p, d) # bindings rest else bindings rest)"

text \<open>A call that raised a TypeError.\<close>

fun is_TypeError :: "error + 'a \<Rightarrow> bool" where
  "is_TypeError (Inl (TypeError m)) = True"
| "is_TypeError r = False"

text \<open>
  Descriptors for the examples: what the parser returns for the input entries
  \<^verbatim>\<open>T x\<close>, \<^verbatim>\<open>T y\<close> and \<^verbatim>\<open>float32 w\<close> and for the output entry \<^verbatim>\<open>T z\<close>.
\<close>

definition param_T_x :: ParameterInfo where
  "param_T_x = \<lparr>p_name = ''x'', p_dtype = None, p_ctype = Some ''T'', p_raw = False,
                 p_is_const = True\<rparr>"

definition param_T_y :: ParameterInfo where
  "param_T_y = \<lparr>p_name = ''y'', p_dtype = None, p_ctype = Some ''T'', p_raw = False,
                 p_is_const = True\<rparr>"

definition param_float32_w :: ParameterInfo where
  "param_float32_w = \<lparr>p_name = ''w'', p_dtype = Some Float32, p_ctype = Some ''float'',
                       p_raw = False, p_is_const = True\<rparr>"

definition param_T_z :: ParameterInfo where
  "param_T_z = \<lparr>p_name = ''z'', p_dtype = None, p_ctype = Some ''T'', p_raw = False,
                 p_is_const = False\<rparr>"

text \<open>
  The operands \<^verbatim>\<open>_reduce_dims\<close> consults (\<^verbatim>\<open>array_args\<close>: the arrays whose
  parameter is not raw), and the shape list of its loop when the axes below \<open>i\<close>
  have been handled.
\<close>

definition array_operands :: "arg list \<Rightarrow> ParameterInfo list \<Rightarrow> ndarray list" where
  "array_operands args params =
     array_args_of (zip args (map (\<lambda>(a, p). \<not> p_raw p \<and> is_ndarray a) (zip args params)))"

definition merged_before ::
  "arg list \<Rightarrow> ParameterInfo list \<Rightarrow> int list \<Rightarrow> nat \<Rightarrow> error + int list" where
  "merged_before args params indexer i =
     merge_axes [1..<i] indexer (array_operands args params)"

text \<open>
  Arrays for the examples: two contiguous float32 arrays of shape \<open>(2, 3)\<close> on device
  0, and a view of shape \<open>(2, 3)\<close> whose rows are 16 bytes apart.
\<close>

definition sample_array_a :: ndarray where
  "sample_array_a = \<lparr>a_dtype = Float32, a_shape = [2, 3], a_strides = [12, 4], a_device = 0,
                      a_data = 0\<rparr>"

definition sample_array_b :: ndarray where
  "sample_array_b = \<lparr>a_dtype = Float32, a_shape = [2, 3], a_strides = [12, 4], a_device = 0,
                      a_data = 1\<rparr>"

definition sample_array_c :: ndarray where
  "sample_array_c = \<lparr>a_dtype = Float32, a_shape = [2, 3], a_strides = [16, 4], a_device = 0,
                      a_data = 2\<rparr>"



text \<open>
  An instance of \<^verbatim>\<open>numpy.can_cast\<close> for the examples: some of the safe casts of
  numpy.
\<close>

fun can_cast_sample :: "dtype \<Rightarrow> dtype \<Rightarrow> bool" where
  "can_cast_sample Bool t = (typenames t \<noteq> None)"
| "can_cast_sample Int32 t = (t = Int32 \<or> t = Int64 \<or> t = Float64)"
| "can_cast_sample Float32 t = (t = Float32 \<or> t = Float64)"
| "can_cast_sample t0 t = (t0 = t)"

text \<open>A ufunc for the examples, registered for \<^verbatim>\<open>ii->i\<close> and \<^verbatim>\<open>dd->d\<close>.\<close>

definition sample_ufunc :: ufunc where
  "sample_ufunc =
     ufunc_init ''cupy_add'' 2 1
       [([Int32, Int32], [Int32], ''out0 = in0 + in1''),
        ([Float64, Float64], [Float64], ''out0 = in0 + in1'')] []"












text \<open>
  A signature for the examples: the kernel \<^verbatim>\<open>y = x\<close> with the parameters
  \<^verbatim>\<open>T x\<close>, \<^verbatim>\<open>T z\<close> and the indexer, called with two float32 arrays of rank 1.
\<close>




text \<open>
  Native compilers for the examples: one that loads a new module at every request,
  numbered from 0, and one that rejects every request.
\<close>

definition fresh_compiler :: native_compiler where
  "fresh_compiler log = Inr (length log - 1)"


definition sample_key :: elementwise_key where
  "sample_key =
     (([(T_ndarray, Some Float32, 1), (T_ndarray, Some Float32, 1), (T_indexer, None, 1)],
       [(Some ''T'', Float32)],
       [param_T_x, param_T_z,
        \<lparr>p_name = ''_ind'', p_dtype = None, p_ctype = None, p_raw = False, p_is_const = False\<rparr>],
       ''z = x'', ''copy'', []), no_kwargs)"




text \<open>
  A call did no kernel work: nothing was synthesized, nothing compiled, nothing
  launched, and the memos of the kernel builders and the current device are as before.
\<close>

definition no_kernel_work :: "cupy_state \<Rightarrow> cupy_state \<Rightarrow> bool" where
  "no_kernel_work st st' =
     (synthesized st' = synthesized st \<and> compiler st' = compiler st \<and>
      compiled st' = compiled st \<and> launched st' = launched st \<and>
      simple_memo st' = simple_memo st \<and> elementwise_memo st' = elementwise_memo st \<and>
      ufunc_memo st' = ufunc_memo st \<and> current_device st' = current_device st)"

text \<open>
  Operation objects for the examples: what \<^verbatim>\<open>ElementwiseKernel('T x', 'T z', 'z = x',
  'copy')\<close> and \<^verbatim>\<open>ElementwiseKernel('raw T x', 'raw T z', 'z[i] = x[i]', 'copy_raw')\<close>
  construct, and a ufunc with two inputs and two outputs.
\<close>

definition param_indexer :: ParameterInfo where
  "param_indexer = \<lparr>p_name = ''_ind'', p_dtype = None, p_ctype = None, p_raw = False,
                     p_is_const = False\<rparr>"

definition sample_kernel :: ElementwiseKernel where
  "sample_kernel =
     \<lparr>ek_in_params = [param_T_x], ek_out_params = [param_T_z], ek_nin = 1, ek_nout = 1,
      ek_params = [param_T_x, param_T_z, param_indexer], ek_operation = ''z = x'',
      ek_name = ''copy'', ek_reduce_dims = True, ek_preamble = [], ek_kwargs = no_kwargs\<rparr>"

definition sample_raw_kernel :: ElementwiseKernel where
  "sample_raw_kernel =
     \<lparr>ek_in_params = [param_T_x\<lparr>p_raw := True\<rparr>],
      ek_out_params = [param_T_z\<lparr>p_raw := True\<rparr>], ek_nin = 1, ek_nout = 1,
      ek_params = [param_T_x\<lparr>p_raw := True\<rparr>, param_T_z\<lparr>p_raw := True\<rparr>, param_indexer],
      ek_operation = ''z[i] = x[i]'', ek_name = ''copy_raw'', ek_reduce_dims = True,
      ek_preamble = [], ek_kwargs = no_kwargs\<rparr>"


text \<open>Arrays of shape \<open>(0,)\<close> on device 0.\<close>

definition sample_empty_float :: ndarray where
  "sample_empty_float = \<lparr>a_dtype = Float32, a_shape = [0], a_strides = [4], a_device = 0,
                          a_data = 3\<rparr>"

definition sample_empty_int :: "nat \<Rightarrow> ndarray" where
  "sample_empty_int buf = \<lparr>a_dtype = Int32, a_shape = [0], a_strides = [4], a_device = 0,
                            a_data = buf\<rparr>"

text \<open>
  The state of the examples: device 0 is current, nothing is compiled, and the buffers
  0 to 9 belong to the arrays of the caller.
\<close>

definition sample_state :: cupy_state where
  "sample_state = (init_state fresh_compiler 0)\<lparr>allocated := 10\<rparr>"




section \<open>Properties\<close>

subsection \<open>The parser of parameter lists\<close>

lemma modifiers_all_raw:
  "\<forall>m \<in> set ms. m = ''raw'' \<Longrightarrow> modifiers ms r = Inr (r \<or> ms \<noteq> [])"
  by (induction ms arbitrary: r) auto

lemma modifiers_unknown:
  "\<exists>m \<in> set ms. m \<noteq> ''raw'' \<Longrightarrow> isl (modifiers ms r)"
  by (induction ms arbitrary: r) auto

lemma modifiers_first_unknown:
  "\<exists>m \<in> set ms. m \<noteq> ''raw'' \<Longrightarrow>
     modifiers ms r =
       Inl (Exception (''Unknown keyward \"'' @ hd (filter (\<lambda>m. m \<noteq> ''raw'') ms) @ ''\"''))"
  by (induction ms arbitrary: r) auto

lemma canonical_name_of_table:
  "typenames d = Some c \<Longrightarrow> dtype_name d \<in> set canonical_names"
  by (cases d) (simp_all add: canonical_names_def)

lemma parse_too_short:
  "length (split_ws str) < 2 \<Longrightarrow>
     ParameterInfo_init numpy_dtype str is_const = Inl (Exception (''Syntax error: '' @ str))"
  by (simp add: ParameterInfo_init_def Let_def)

lemma parse_stages:
  "2 \<le> length (split_ws str) \<Longrightarrow>
     ParameterInfo_init numpy_dtype str is_const =
       (case parse_type_token numpy_dtype (type_token str) of
          Inl e \<Rightarrow> Inl e
        | Inr (dt, ct) \<Rightarrow>
            (case modifiers (modifier_tokens str) False of
               Inl e \<Rightarrow> Inl e
             | Inr r \<Rightarrow>
                 Inr \<lparr>p_name = last (split_ws str), p_dtype = dt, p_ctype = ct, p_raw = r,
                      p_is_const = is_const\<rparr>))"
proof -
  assume a: "2 \<le> length (split_ws str)"
  then have ne: "split_ws str \<noteq> []" by auto
  from a have b: "\<not> length (split_ws str) < 2" by simp
  show ?thesis
    unfolding ParameterInfo_init_def Let_def parse_type_token_def type_token_def
      modifier_tokens_def last_conv_nth [OF ne] if_not_P [OF b] ..
qed

lemma parse_generic:
  assumes "2 \<le> length (split_ws str)" "length (type_token str) = 1"
    "\<forall>m \<in> set (modifier_tokens str). m = ''raw''"
  shows "ParameterInfo_init numpy_dtype str is_const =
         Inr \<lparr>p_name = last (split_ws str), p_dtype = None,
              p_ctype = Some (type_token str),
              p_raw = (modifier_tokens str \<noteq> []), p_is_const = is_const\<rparr>"
proof -
  have t: "type_token str \<noteq> ''CIndexer''"
    using assms(2) by auto
  have m: "modifiers (modifier_tokens str) False = Inr (modifier_tokens str \<noteq> [])"
    using modifiers_all_raw [OF assms(3), of False] by simp
  show ?thesis
    using assms(2) t m by (simp add: parse_stages [OF assms(1)] parse_type_token_def)
qed

lemma type_token_rejected:
  assumes "length t \<noteq> 1" "t \<noteq> ''CIndexer''" "t \<notin> set canonical_names"
  shows "parse_type_token numpy_dtype t =
         Inl (case numpy_dtype t of
                Inl e \<Rightarrow> e
              | Inr d \<Rightarrow>
                  if dtype_name d \<noteq> t then ValueError (''Wrong type '' @ t) else KeyError t)"
  using assms
  by (auto simp add: parse_type_token_def get_typename_def
      split: sum.splits option.splits dest: canonical_name_of_table)

lemma parse_wrong_type:
  assumes "2 \<le> length (split_ws str)"
    "length (type_token str) \<noteq> 1"
    "type_token str \<noteq> ''CIndexer''"
    "type_token str \<notin> set canonical_names"
  shows "ParameterInfo_init numpy_dtype str is_const =
         Inl (case numpy_dtype (type_token str) of
                Inl e \<Rightarrow> e
              | Inr d \<Rightarrow>
                  if dtype_name d \<noteq> type_token str
                  then ValueError (''Wrong type '' @ type_token str)
                  else KeyError (type_token str))"
  by (simp add: parse_stages [OF assms(1)] type_token_rejected [OF assms(2,3,4)])

lemma parse_unknown_modifier:
  assumes "2 \<le> length (split_ws str)"
    "\<exists>m \<in> set (modifier_tokens str). m \<noteq> ''raw''"
  shows "ParameterInfo_init numpy_dtype str is_const =
         Inl (case parse_type_token numpy_dtype (type_token str) of
                Inl e \<Rightarrow> e
              | Inr x \<Rightarrow>
                  Exception (''Unknown keyward \"'' @
                    hd (filter (\<lambda>m. m \<noteq> ''raw'') (modifier_tokens str)) @ ''\"''))"
  by (simp add: parse_stages [OF assms(1)] modifiers_first_unknown [OF assms(2)]
      split: sum.splits prod.splits)

text \<open>
  Claim C7, as amended. For every entry of a parameter list, whatever
  \<^verbatim>\<open>numpy.dtype\<close> does: with fewer than two tokens parsing fails with the exception
  \<^verbatim>\<open>Syntax error\<close>; a type token of one character is a generic tag (the descriptor
  has no dtype and the token as its tag) when every modifier is \<^verbatim>\<open>raw\<close>; a type
  token of several characters other than the keyword \<^verbatim>\<open>CIndexer\<close> that is not the
  canonical name of an element type of the table makes parsing fail, with the exception
  of \<^verbatim>\<open>numpy.dtype\<close> when that raises, with the ValueError \<^verbatim>\<open>Wrong type\<close> when the
  dtype has another name than the token, and with the KeyError of the table otherwise;
  and with a modifier other than \<^verbatim>\<open>raw\<close> parsing fails, with the exception of the
  type token when that is rejected, and otherwise with the exception
  \<^verbatim>\<open>Unknown keyward\<close> that quotes the first such modifier.
\<close>

theorem parameter_entry_parsing:
  "(length (split_ws str) < 2 \<longrightarrow>
      ParameterInfo_init numpy_dtype str is_const = Inl (Exception (''Syntax error: '' @ str))) \<and>
   (2 \<le> length (split_ws str) \<and> length (type_token str) = 1 \<and>
      (\<forall>m \<in> set (modifier_tokens str). m = ''raw'') \<longrightarrow>
      ParameterInfo_init numpy_dtype str is_const =
        Inr \<lparr>p_name = last (split_ws str), p_dtype = None, p_ctype = Some (type_token str),
             p_raw = (modifier_tokens str \<noteq> []), p_is_const = is_const\<rparr>) \<and>
   (2 \<le> length (split_ws str) \<and> length (type_token str) \<noteq> 1 \<and>
      type_token str \<noteq> ''CIndexer'' \<and> type_token str \<notin> set canonical_names \<longrightarrow>
      ParameterInfo_init numpy_dtype str is_const =
        Inl (case numpy_dtype (type_token str) of
               Inl e \<Rightarrow> e
             | Inr d \<Rightarrow>
                 if dtype_name d \<noteq> type_token str
                 then ValueError (''Wrong type '' @ type_token str)
                 else KeyError (type_token str))) \<and>
   (2 \<le> length (split_ws str) \<and> (\<exists>m \<in> set (modifier_tokens str). m \<noteq> ''raw'') \<longrightarrow>
      ParameterInfo_init numpy_dtype str is_const =
        Inl (case parse_type_token numpy_dtype (type_token str) of
               Inl e \<Rightarrow> e
             | Inr x \<Rightarrow>
                 Exception (''Unknown keyward \"'' @
                   hd (filter (\<lambda>m. m \<noteq> ''raw'') (modifier_tokens str)) @ ''\"'')))"
proof (intro conjI impI)
  assume "length (split_ws str) < 2"
  then show "ParameterInfo_init numpy_dtype str is_const =
      Inl (Exception (''Syntax error: '' @ str))"
    by (rule parse_too_short)
next
  assume a: "2 \<le> length (split_ws str) \<and> length (type_token str) = 1 \<and>
      (\<forall>m \<in> set (modifier_tokens str). m = ''raw'')"
  show "ParameterInfo_init numpy_dtype str is_const =
        Inr \<lparr>p_name = last (split_ws str), p_dtype = None, p_ctype = Some (type_token str),
             p_raw = (modifier_tokens str \<noteq> []), p_is_const = is_const\<rparr>"
    by (rule parse_generic) (use a in simp_all)
next
  assume a: "2 \<le> length (split_ws str) \<and> length (type_token str) \<noteq> 1 \<and>
      type_token str \<noteq> ''CIndexer'' \<and> type_token str \<notin> set canonical_names"
  show "ParameterInfo_init numpy_dtype str is_const =
        Inl (case numpy_dtype (type_token str) of
               Inl e \<Rightarrow> e
             | Inr d \<Rightarrow>
                 if dtype_name d \<noteq> type_token str
                 then ValueError (''Wrong type '' @ type_token str)
                 else KeyError (type_token str))"
    by (rule parse_wrong_type) (use a in simp_all)
next
  assume a: "2 \<le> length (split_ws str) \<and>
      (\<exists>m \<in> set (modifier_tokens str). m \<noteq> ''raw'')"
  show "ParameterInfo_init numpy_dtype str is_const =
        Inl (case parse_type_token numpy_dtype (type_token str) of
               Inl e \<Rightarrow> e
             | Inr x \<Rightarrow>
                 Exception (''Unknown keyward \"'' @
                   hd (filter (\<lambda>m. m \<noteq> ''raw'') (modifier_tokens str)) @ ''\"''))"
    by (rule parse_unknown_modifier) (use a in simp_all)
qed

lemma tokens_x: "split_ws ''x'' = [''x'']"
  by (simp add: split_ws_def is_space_def)

lemma tokens_raw_T_x: "split_ws ''raw T x'' = [''raw'', ''T'', ''x'']"
  by (simp add: split_ws_def is_space_def)

lemma tokens_f4_x: "split_ws ''f4 x'' = [''f4'', ''x'']"
  by (simp add: split_ws_def is_space_def)

lemma tokens_const_T_x: "split_ws ''const T x'' = [''const'', ''T'', ''x'']"
  by (simp add: split_ws_def is_space_def)

lemma tokens_complex128_x: "split_ws ''complex128 x'' = [''complex128'', ''x'']"
  by (simp add: split_ws_def is_space_def)

lemma tokens_foo_x: "split_ws ''foo x'' = [''foo'', ''x'']"
  by (simp add: split_ws_def is_space_def)

lemma tokens_const_f4_x: "split_ws ''const f4 x'' = [''const'', ''f4'', ''x'']"
  by (simp add: split_ws_def is_space_def)

theorem parameter_entry_parsing_witness:
  "ParameterInfo_init numpy_dtype_sample ''x'' True = Inl (Exception ''Syntax error: x'') \<and>
   ParameterInfo_init numpy_dtype_sample ''raw T x'' True =
     Inr \<lparr>p_name = ''x'', p_dtype = None, p_ctype = Some ''T'', p_raw = True,
          p_is_const = True\<rparr> \<and>
   ParameterInfo_init numpy_dtype_sample ''f4 x'' True = Inl (ValueError ''Wrong type f4'') \<and>
   ParameterInfo_init numpy_dtype_sample ''complex128 x'' True = Inl (KeyError ''complex128'') \<and>
   ParameterInfo_init numpy_dtype_sample ''foo x'' True =
     Inl (TypeError ''data type not understood'') \<and>
   ParameterInfo_init numpy_dtype_sample ''const T x'' True =
     Inl (Exception ''Unknown keyward \"const\"'') \<and>
   ParameterInfo_init numpy_dtype_sample ''const f4 x'' True = Inl (ValueError ''Wrong type f4'')"
proof -
  have 1: "ParameterInfo_init numpy_dtype_sample ''x'' True = Inl (Exception ''Syntax error: x'')"
    using parameter_entry_parsing [of "''x''" numpy_dtype_sample True]
    by (simp add: tokens_x)
  have 2: "ParameterInfo_init numpy_dtype_sample ''raw T x'' True =
     Inr \<lparr>p_name = ''x'', p_dtype = None, p_ctype = Some ''T'', p_raw = True,
          p_is_const = True\<rparr>"
    using parameter_entry_parsing [of "''raw T x''" numpy_dtype_sample True]
    by (simp add: tokens_raw_T_x type_token_def modifier_tokens_def)
  have 3: "ParameterInfo_init numpy_dtype_sample ''f4 x'' True = Inl (ValueError ''Wrong type f4'')"
    using parameter_entry_parsing [of "''f4 x''" numpy_dtype_sample True]
    by (simp add: tokens_f4_x type_token_def modifier_tokens_def canonical_names_def
        numpy_dtype_sample_def)
  have 4: "ParameterInfo_init numpy_dtype_sample ''complex128 x'' True =
      Inl (KeyError ''complex128'')"
    using parameter_entry_parsing [of "''complex128 x''" numpy_dtype_sample True]
    by (simp add: tokens_complex128_x type_token_def modifier_tokens_def canonical_names_def
        numpy_dtype_sample_def)
  have 5: "ParameterInfo_init numpy_dtype_sample ''foo x'' True =
      Inl (TypeError ''data type not understood'')"
    using parameter_entry_parsing [of "''foo x''" numpy_dtype_sample True]
    by (simp add: tokens_foo_x type_token_def modifier_tokens_def canonical_names_def
        numpy_dtype_sample_def)
  have 6: "ParameterInfo_init numpy_dtype_sample ''const T x'' True =
      Inl (Exception ''Unknown keyward \"const\"'')"
    using parameter_entry_parsing [of "''const T x''" numpy_dtype_sample True]
    by (simp add: tokens_const_T_x type_token_def modifier_tokens_def parse_type_token_def)
  have 7: "ParameterInfo_init numpy_dtype_sample ''const f4 x'' True =
      Inl (ValueError ''Wrong type f4'')"
    using parameter_entry_parsing [of "''const f4 x''" numpy_dtype_sample True]
    by (simp add: tokens_const_f4_x type_token_def modifier_tokens_def parse_type_token_def
        numpy_dtype_sample_def)
  show ?thesis by (intro conjI 1 2 3 4 5 6 7)
qed

lemma tokens_CIndexer_ind: "split_ws ''CIndexer _ind'' = [''CIndexer'', ''_ind'']"
  by (simp add: split_ws_def is_space_def)

text \<open>
  Claim C7, as it is stated, fails twice. The entry \<^verbatim>\<open>CIndexer _ind\<close>, which the
  module itself parses, has a type token of eight characters that is no name of an
  element type, and parsing succeeds. And the exception of a rejected type token is no
  syntax error: \<^verbatim>\<open>f4 x\<close> raises a ValueError, \<^verbatim>\<open>complex128 x\<close> a KeyError,
  \<^verbatim>\<open>foo x\<close> the TypeError of numpy, and \<^verbatim>\<open>const f4 x\<close>, with an unknown
  modifier, the ValueError of its type token.
\<close>

theorem parameter_entry_indexer_counterexample:
  "1 < length (type_token ''CIndexer _ind'') \<and>
   type_token ''CIndexer _ind'' \<notin> set canonical_names \<and>
   ParameterInfo_init numpy_dtype_sample ''CIndexer _ind'' False =
     Inr \<lparr>p_name = ''_ind'', p_dtype = None, p_ctype = None, p_raw = False,
          p_is_const = False\<rparr> \<and>
   type_token ''f4 x'' \<notin> set canonical_names \<and>
   ParameterInfo_init numpy_dtype_sample ''f4 x'' True = Inl (ValueError ''Wrong type f4'') \<and>
   type_token ''complex128 x'' \<notin> set canonical_names \<and>
   ParameterInfo_init numpy_dtype_sample ''complex128 x'' True = Inl (KeyError ''complex128'') \<and>
   type_token ''foo x'' \<notin> set canonical_names \<and>
   ParameterInfo_init numpy_dtype_sample ''foo x'' True =
     Inl (TypeError ''data type not understood'') \<and>
   modifier_tokens ''const f4 x'' = [''const''] \<and>
   ParameterInfo_init numpy_dtype_sample ''const f4 x'' True = Inl (ValueError ''Wrong type f4'')"
  by (simp add: ParameterInfo_init_def Let_def tokens_CIndexer_ind tokens_f4_x
      tokens_complex128_x tokens_foo_x tokens_const_f4_x type_token_def modifier_tokens_def
      canonical_names_def numpy_dtype_sample_def get_typename_def)

subsection \<open>The reserved name\<close>

lemma parse_of_tokens:
  assumes "split_ws str = ms @ [t, nm]"
  shows "ParameterInfo_init numpy_dtype str c =
     (case (if t = ''CIndexer'' then Inr (None, None)
            else if length t = 1 then Inr (None, Some t)
            else
              (case numpy_dtype t of
                 Inl e \<Rightarrow> Inl e
               | Inr d \<Rightarrow>
                   if dtype_name d \<noteq> t then Inl (ValueError (''Wrong type '' @ t))
                   else
                     (case get_typename (Some d) of
                        Inl e \<Rightarrow> Inl e
                      | Inr c \<Rightarrow> Inr (Some d, Some c)))) of
        Inl e \<Rightarrow> Inl e
      | Inr (dt, ct) \<Rightarrow>
          (case modifiers ms False of
             Inl e \<Rightarrow> Inl e
           | Inr r \<Rightarrow>
               Inr \<lparr>p_name = nm, p_dtype = dt, p_ctype = ct, p_raw = r, p_is_const = c\<rparr>))"
proof -
  have a: "split_ws str ! (length (split_ws str) - 2) = t"
    unfolding assms by (simp add: nth_append)
  have b: "split_ws str ! (length (split_ws str) - 1) = nm"
    unfolding assms by (simp add: nth_append)
  have c: "take (length (split_ws str) - 2) (split_ws str) = ms"
    unfolding assms by simp
  have d: "\<not> length (split_ws str) < 2"
    unfolding assms by simp
  show ?thesis
    unfolding ParameterInfo_init_def Let_def a b c using d by simp
qed

lemma two_last_tokens:
  assumes "2 \<le> length (s :: 'a list)"
  shows "\<exists>ms t. s = ms @ [t, last s]"
proof -
  from assms have ne: "s \<noteq> []" by auto
  then have s: "s = butlast s @ [last s]" by simp
  from assms have "butlast s \<noteq> []" by (cases s) auto
  then have b: "butlast s = butlast (butlast s) @ [last (butlast s)]" by simp
  have "s = butlast (butlast s) @ [last (butlast s), last s]"
    using s b by (metis append_Cons append_Nil append_assoc)
  then show ?thesis by blast
qed

lemma parse_name_independent:
  assumes "2 \<le> length (split_ws str)" "2 \<le> length (split_ws str')"
    "butlast (split_ws str') = butlast (split_ws str)"
  shows "(case ParameterInfo_init numpy_dtype str' c of
            Inl e \<Rightarrow> ParameterInfo_init numpy_dtype str c = Inl e
          | Inr p \<Rightarrow>
              ParameterInfo_init numpy_dtype str c = Inr (p\<lparr>p_name := last (split_ws str)\<rparr>))"
proof -
  obtain ms t where s: "split_ws str = ms @ [t, last (split_ws str)]"
    using two_last_tokens [OF assms(1)] by blast
  obtain ms' t' where s': "split_ws str' = ms' @ [t', last (split_ws str')]"
    using two_last_tokens [OF assms(2)] by blast
  have "butlast (ms' @ [t', last (split_ws str')]) = butlast (ms @ [t, last (split_ws str)])"
    using assms(3) s s' by simp
  then have "ms' @ [t'] = ms @ [t]"
    by (simp add: butlast_append)
  then have eq: "ms' = ms" "t' = t" by simp_all
  show ?thesis
    unfolding parse_of_tokens [OF s] parse_of_tokens [OF s' [unfolded eq]]
    by (simp split: sum.splits prod.splits)
qed

lemma indexer_param_info:
  "get_param_info numpy_dtype ''CIndexer _ind'' False =
     Inr [\<lparr>p_name = ''_ind'', p_dtype = None, p_ctype = None, p_raw = False,
           p_is_const = False\<rparr>]"
  by (simp add: get_param_info_def strip_def is_space_def split_comma_def
      ParameterInfo_init_def Let_def tokens_CIndexer_ind)

lemma init_rejects_i:
  assumes "get_param_info numpy_dtype in_params True = Inr ips"
    "get_param_info numpy_dtype out_params False = Inr ops"
    "''i'' \<in> set (map p_name (ips @ ops))"
  shows "ElementwiseKernel_init numpy_dtype in_params out_params operation name rd preamble kwargs =
         Inl (ValueError ''Can not use 'i' as a parameter name'')"
  using assms by (simp add: ElementwiseKernel_init_def indexer_param_info Let_def)

lemma tokens_T_i: "split_ws ''T i'' = [''T'', ''i'']"
  by (simp add: split_ws_def is_space_def)

lemma tokens_T_x: "split_ws ''T x'' = [''T'', ''x'']"
  by (simp add: split_ws_def is_space_def)

lemma tokens_T_y: "split_ws ''T y'' = [''T'', ''y'']"
  by (simp add: split_ws_def is_space_def)

lemma param_info_T_i:
  "get_param_info numpy_dtype_sample ''T i'' True =
     Inr [\<lparr>p_name = ''i'', p_dtype = None, p_ctype = Some ''T'', p_raw = False,
           p_is_const = True\<rparr>]"
  by (simp add: get_param_info_def strip_def is_space_def split_comma_def
      ParameterInfo_init_def Let_def tokens_T_i)

lemma param_info_T_y:
  "get_param_info numpy_dtype_sample ''T y'' False =
     Inr [\<lparr>p_name = ''y'', p_dtype = None, p_ctype = Some ''T'', p_raw = False,
           p_is_const = False\<rparr>]"
  by (simp add: get_param_info_def strip_def is_space_def split_comma_def
      ParameterInfo_init_def Let_def tokens_T_y)

text \<open>
  Claim C8. The parser never looks at the name of a parameter: an entry named
  \<^verbatim>\<open>i\<close> parses exactly as the same entry under any other name does (the same
  exception, or the same descriptor but for the name), and it parses whenever its type
  token is a generic tag and its modifiers are \<^verbatim>\<open>raw\<close>. When both parameter lists
  parse and one of the names is \<^verbatim>\<open>i\<close>, the constructor of
  \<^verbatim>\<open>ElementwiseKernel\<close> raises the ValueError of the reserved name.
\<close>

theorem reserved_name_rejected_at_construction:
  "(2 \<le> length (split_ws str) \<and> last (split_ws str) = ''i'' \<and> 2 \<le> length (split_ws str') \<and>
      butlast (split_ws str') = butlast (split_ws str) \<longrightarrow>
      (case ParameterInfo_init numpy_dtype str' c of
         Inl e \<Rightarrow> ParameterInfo_init numpy_dtype str c = Inl e
       | Inr p \<Rightarrow> ParameterInfo_init numpy_dtype str c = Inr (p\<lparr>p_name := ''i''\<rparr>))) \<and>
   (2 \<le> length (split_ws str) \<and> last (split_ws str) = ''i'' \<and> length (type_token str) = 1 \<and>
      (\<forall>m \<in> set (modifier_tokens str). m = ''raw'') \<longrightarrow>
      ParameterInfo_init numpy_dtype str c =
        Inr \<lparr>p_name = ''i'', p_dtype = None, p_ctype = Some (type_token str),
             p_raw = (modifier_tokens str \<noteq> []), p_is_const = c\<rparr>) \<and>
   (get_param_info numpy_dtype in_params True = Inr ips \<and>
      get_param_info numpy_dtype out_params False = Inr ops \<and>
      ''i'' \<in> set (map p_name (ips @ ops)) \<longrightarrow>
      ElementwiseKernel_init numpy_dtype in_params out_params operation name rd preamble kwargs =
        Inl (ValueError ''Can not use 'i' as a parameter name''))"
proof (intro conjI impI)
  assume a: "2 \<le> length (split_ws str) \<and> last (split_ws str) = ''i'' \<and>
      2 \<le> length (split_ws str') \<and> butlast (split_ws str') = butlast (split_ws str)"
  then have 1: "2 \<le> length (split_ws str)" and 2: "2 \<le> length (split_ws str')"
    and 3: "butlast (split_ws str') = butlast (split_ws str)"
    and 4: "last (split_ws str) = ''i''" by simp_all
  show "(case ParameterInfo_init numpy_dtype str' c of
         Inl e \<Rightarrow> ParameterInfo_init numpy_dtype str c = Inl e
       | Inr p \<Rightarrow> ParameterInfo_init numpy_dtype str c = Inr (p\<lparr>p_name := ''i''\<rparr>))"
    using parse_name_independent [OF 1 2 3, of numpy_dtype c] unfolding 4 .
next
  assume a: "2 \<le> length (split_ws str) \<and> last (split_ws str) = ''i'' \<and>
      length (type_token str) = 1 \<and> (\<forall>m \<in> set (modifier_tokens str). m = ''raw'')"
  then have 1: "2 \<le> length (split_ws str)" and 2: "length (type_token str) = 1"
    and 3: "\<forall>m \<in> set (modifier_tokens str). m = ''raw''"
    and 4: "last (split_ws str) = ''i''" by simp_all
  show "ParameterInfo_init numpy_dtype str c =
        Inr \<lparr>p_name = ''i'', p_dtype = None, p_ctype = Some (type_token str),
             p_raw = (modifier_tokens str \<noteq> []), p_is_const = c\<rparr>"
    using parse_generic [OF 1 2 3, of numpy_dtype c] unfolding 4 .
next
  assume a: "get_param_info numpy_dtype in_params True = Inr ips \<and>
      get_param_info numpy_dtype out_params False = Inr ops \<and>
      ''i'' \<in> set (map p_name (ips @ ops))"
  show "ElementwiseKernel_init numpy_dtype in_params out_params operation name rd preamble kwargs =
        Inl (ValueError ''Can not use 'i' as a parameter name'')"
  proof (rule init_rejects_i)
    show "get_param_info numpy_dtype in_params True = Inr ips" using a by simp
    show "get_param_info numpy_dtype out_params False = Inr ops" using a by simp
    show "''i'' \<in> set (map p_name (ips @ ops))" using a by blast
  qed
qed

theorem reserved_name_rejected_at_construction_witness:
  "ParameterInfo_init numpy_dtype_sample ''T i'' True =
     Inr \<lparr>p_name = ''i'', p_dtype = None, p_ctype = Some ''T'', p_raw = False,
          p_is_const = True\<rparr> \<and>
   ParameterInfo_init numpy_dtype_sample ''T x'' True =
     Inr \<lparr>p_name = ''x'', p_dtype = None, p_ctype = Some ''T'', p_raw = False,
          p_is_const = True\<rparr> \<and>
   get_param_info numpy_dtype_sample ''T i'' True =
     Inr [\<lparr>p_name = ''i'', p_dtype = None, p_ctype = Some ''T'', p_raw = False,
           p_is_const = True\<rparr>] \<and>
   ElementwiseKernel_init numpy_dtype_sample ''T i'' ''T y'' ''y = i'' ''kernel'' True [] no_kwargs =
     Inl (ValueError ''Can not use 'i' as a parameter name'')"
proof -
  note inst = reserved_name_rejected_at_construction
      [of "''T i''" "''T x''" numpy_dtype_sample True "''T i''"
          "[\<lparr>p_name = ''i'', p_dtype = None, p_ctype = Some ''T'', p_raw = False,
             p_is_const = True\<rparr>]"
          "''T y''"
          "[\<lparr>p_name = ''y'', p_dtype = None, p_ctype = Some ''T'', p_raw = False,
             p_is_const = False\<rparr>]"
          "''y = i''" "''kernel''" True "[]" no_kwargs]
  have 2: "ParameterInfo_init numpy_dtype_sample ''T i'' True =
     Inr \<lparr>p_name = ''i'', p_dtype = None, p_ctype = Some ''T'', p_raw = False,
          p_is_const = True\<rparr>"
    using inst by (simp add: tokens_T_i tokens_T_x type_token_def modifier_tokens_def)
  have x: "ParameterInfo_init numpy_dtype_sample ''T x'' True =
     Inr \<lparr>p_name = ''x'', p_dtype = None, p_ctype = Some ''T'', p_raw = False,
          p_is_const = True\<rparr>"
    by (simp add: ParameterInfo_init_def Let_def tokens_T_x)
  have 3: "ElementwiseKernel_init numpy_dtype_sample ''T i'' ''T y'' ''y = i'' ''kernel'' True []
      no_kwargs = Inl (ValueError ''Can not use 'i' as a parameter name'')"
    using inst by (simp add: param_info_T_i param_info_T_y)
  show ?thesis by (intro conjI 2 x 3 param_info_T_i)
qed

subsection \<open>Type resolution\<close>

lemma map_add_upd_bound:
  "m k = Some v \<Longrightarrow> n(k \<mapsto> v) ++ m = n ++ m"
  by (rule ext) (auto simp add: map_add_def split: option.splits)

lemma in_loop_bindings:
  "decide_in_loop xs td = Inr td' \<Longrightarrow> map_of td' = map_of (td @ bindings xs)"
proof (induction xs td rule: decide_in_loop.induct)
  case (1 td)
  then show ?case by simp
next
  case (2 p a rest td)
  then show ?case
    by (auto split: option.splits if_splits simp add: map_add_upd_bound)
qed

lemma out_loop_bindings:
  "decide_out_loop xs td = Inr td' \<Longrightarrow> map_of td' = map_of (td @ bindings xs)"
proof (induction xs td rule: decide_out_loop.induct)
  case (1 td)
  then show ?case by simp
next
  case (2 p a rest td)
  then show ?case
    by (auto split: option.splits if_splits simp add: map_add_upd_bound)
qed

lemma in_loop_mono:
  "decide_in_loop xs td = Inr td' \<Longrightarrow> map_of td k = Some v \<Longrightarrow> map_of td' k = Some v"
  by (simp add: in_loop_bindings map_add_def)

lemma out_loop_mono:
  "decide_out_loop xs td = Inr td' \<Longrightarrow> map_of td k = Some v \<Longrightarrow> map_of td' k = Some v"
  by (simp add: out_loop_bindings map_add_def)

lemma in_loop_agrees:
  "decide_in_loop xs td = Inr td' \<Longrightarrow> (p, Some d) \<in> set xs \<Longrightarrow>
     (case p_dtype p of Some t \<Rightarrow> d = t | None \<Rightarrow> map_of td' (p_ctype p) = Some d)"
proof (induction xs td rule: decide_in_loop.induct)
  case (1 td)
  then show ?case by simp
next
  case (2 q a rest td)
  show ?case
  proof (cases "(p, Some d) \<in> set rest")
    case True
    with 2 show ?thesis
      by (auto split: option.splits if_splits)
  next
    case False
    with "2.prems" have eq: "q = p" "a = Some d" by auto
    show ?thesis
    proof (cases "p_dtype p")
      case (Some t)
      with "2.prems"(1) eq show ?thesis by (auto split: if_splits)
    next
      case None
      show ?thesis
      proof (cases "map_of td (p_ctype p)")
        case n: None
        with "2.prems"(1) eq None
        have r: "decide_in_loop rest (td @ [(p_ctype p, d)]) = Inr td'" by simp
        have "map_of (td @ [(p_ctype p, d)]) (p_ctype p) = Some d"
          using n by (simp add: map_add_def)
        from in_loop_mono [OF r this] None show ?thesis by simp
      next
        case s: (Some t)
        with "2.prems"(1) eq None
        have r: "decide_in_loop rest td = Inr td'" and "t = d" by (auto split: if_splits)
        with s in_loop_mono [OF r, of "p_ctype p" d] None show ?thesis by simp
      qed
    qed
  qed
qed

lemma out_loop_agrees:
  "decide_out_loop xs td = Inr td' \<Longrightarrow> (p, Some d) \<in> set xs \<Longrightarrow>
     (case p_dtype p of Some t \<Rightarrow> d = t | None \<Rightarrow> map_of td' (p_ctype p) = Some d)"
proof (induction xs td rule: decide_out_loop.induct)
  case (1 td)
  then show ?case by simp
next
  case (2 q a rest td)
  show ?case
  proof (cases "(p, Some d) \<in> set rest")
    case True
    with 2 show ?thesis
      by (auto split: option.splits if_splits)
  next
    case False
    with "2.prems" have eq: "q = p" "a = Some d" by auto
    show ?thesis
    proof (cases "p_dtype p")
      case (Some t)
      with "2.prems"(1) eq show ?thesis by (auto split: if_splits)
    next
      case None
      show ?thesis
      proof (cases "map_of td (p_ctype p)")
        case n: None
        with "2.prems"(1) eq None
        have r: "decide_out_loop rest (td @ [(p_ctype p, d)]) = Inr td'" by simp
        have "map_of (td @ [(p_ctype p, d)]) (p_ctype p) = Some d"
          using n by (simp add: map_add_def)
        from out_loop_mono [OF r this] None show ?thesis by simp
      next
        case s: (Some t)
        with "2.prems"(1) eq None
        have r: "decide_out_loop rest td = Inr td'" and "t = d" by (auto split: if_splits)
        with s out_loop_mono [OF r, of "p_ctype p" d] None show ?thesis by simp
      qed
    qed
  qed
qed

lemma in_loop_error: "decide_in_loop xs td = Inl e \<Longrightarrow> \<exists>m. e = TypeError m"
  by (induction xs td rule: decide_in_loop.induct) (auto split: option.splits if_splits)

lemma out_loop_error: "decide_out_loop xs td = Inl e \<Longrightarrow> \<exists>m. e = TypeError m"
  by (induction xs td rule: decide_out_loop.induct) (auto split: option.splits if_splits)

lemma bindings_append: "bindings (xs @ ys) = bindings xs @ bindings ys"
  by (induction xs rule: bindings.induct) (auto split: option.splits)

lemma decide_params_type_loops:
  assumes "out_args_dtype = [] \<or> length out_params = length out_args_dtype"
    "length in_params = length in_args_dtype"
    "\<not> is_TypeError (decide_params_type in_params out_params in_args_dtype out_args_dtype)"
  shows "\<exists>td1 td2.
           decide_out_loop (zip out_params out_args_dtype) [] = Inr td1 \<and>
           decide_in_loop (zip in_params in_args_dtype) td1 = Inr td2"
proof (cases "out_args_dtype = []")
  case True
  with assms(2,3) show ?thesis
    by (cases "decide_in_loop (zip in_params in_args_dtype) []")
       (auto simp add: decide_params_type_def dest: in_loop_error)
next
  case False
  with assms(1) have len: "length out_params = length out_args_dtype" by simp
  show ?thesis
  proof (cases "decide_out_loop (zip out_params out_args_dtype) []")
    case (Inl e)
    with False len assms(3) show ?thesis
      by (auto simp add: decide_params_type_def dest: out_loop_error)
  next
    case (Inr td1)
    with False len assms(2,3) show ?thesis
      by (cases "decide_in_loop (zip in_params in_args_dtype) td1")
         (auto simp add: decide_params_type_def dest: in_loop_error)
  qed
qed

lemma decide_params_type_success:
  assumes "decide_params_type in_params out_params in_args_dtype out_args_dtype =
             Inr (its, ots, types)"
  shows "\<exists>td1. decide_out_loop (zip out_params out_args_dtype) [] = Inr td1 \<and>
           decide_in_loop (zip in_params in_args_dtype) td1 = Inr types"
proof (cases "out_args_dtype = []")
  case True
  with assms show ?thesis
    by (auto simp add: decide_params_type_def split: sum.splits if_splits)
next
  case False
  with assms show ?thesis
    by (auto simp add: decide_params_type_def split: sum.splits if_splits)
qed

lemma loops_agree:
  assumes "decide_out_loop (zip out_params out_args_dtype) [] = Inr td1"
    "decide_in_loop (zip in_params in_args_dtype) td1 = Inr td2"
    "(p, Some d) \<in> set (observed in_params out_params in_args_dtype out_args_dtype)"
  shows "(case p_dtype p of Some t \<Rightarrow> d = t | None \<Rightarrow> map_of td2 (p_ctype p) = Some d)"
proof (cases "(p, Some d) \<in> set (zip out_params out_args_dtype)")
  case True
  from out_loop_agrees [OF assms(1) True] show ?thesis
    by (auto split: option.splits intro: in_loop_mono [OF assms(2)])
next
  case False
  with assms(3) have "(p, Some d) \<in> set (zip in_params in_args_dtype)"
    by (simp add: observed_def)
  from in_loop_agrees [OF assms(2) this] show ?thesis .
qed

lemma loops_bindings:
  assumes "decide_out_loop (zip out_params out_args_dtype) [] = Inr td1"
    "decide_in_loop (zip in_params in_args_dtype) td1 = Inr td2"
  shows "map_of td2 = map_of (bindings (observed in_params out_params in_args_dtype out_args_dtype))"
  using in_loop_bindings [OF assms(2)] out_loop_bindings [OF assms(1)]
  by (simp add: observed_def bindings_append)

text \<open>
  Claim C3. Let the caller's two assertions on the lengths hold. When resolution
  returns, the type dictionary binds every tag to the dtype of the first operand
  observed with that tag, scanning the supplied outputs and then the inputs
  (\<open>map_of\<close> takes the first binding of a key). When two observed array operands carry
  the same generic tag and different dtypes, resolution raises a TypeError. When the
  parameter of an observed array operand has a concrete type other than the dtype of
  the operand, resolution raises a TypeError.
\<close>

theorem type_resolution_first_dtype_binds:
  "(out_args_dtype = [] \<or> length out_params = length out_args_dtype) \<and>
   length in_params = length in_args_dtype \<longrightarrow>
   (\<forall>its ots types.
      decide_params_type in_params out_params in_args_dtype out_args_dtype =
        Inr (its, ots, types) \<longrightarrow>
      map_of types =
        map_of (bindings (observed in_params out_params in_args_dtype out_args_dtype))) \<and>
   ((\<exists>p d q d'.
       (p, Some d) \<in> set (observed in_params out_params in_args_dtype out_args_dtype) \<and>
       (q, Some d') \<in> set (observed in_params out_params in_args_dtype out_args_dtype) \<and>
       p_dtype p = None \<and> p_dtype q = None \<and> p_ctype p = p_ctype q \<and> d \<noteq> d') \<longrightarrow>
      is_TypeError (decide_params_type in_params out_params in_args_dtype out_args_dtype)) \<and>
   ((\<exists>p d t.
       (p, Some d) \<in> set (observed in_params out_params in_args_dtype out_args_dtype) \<and>
       p_dtype p = Some t \<and> d \<noteq> t) \<longrightarrow>
      is_TypeError (decide_params_type in_params out_params in_args_dtype out_args_dtype))"
proof (intro impI conjI allI)
  fix its ots types
  assume "decide_params_type in_params out_params in_args_dtype out_args_dtype =
        Inr (its, ots, types)"
  from decide_params_type_success [OF this] obtain td1 where
    "decide_out_loop (zip out_params out_args_dtype) [] = Inr td1"
    "decide_in_loop (zip in_params in_args_dtype) td1 = Inr types" by blast
  then show "map_of types =
        map_of (bindings (observed in_params out_params in_args_dtype out_args_dtype))"
    by (rule loops_bindings)
next
  assume h: "(out_args_dtype = [] \<or> length out_params = length out_args_dtype) \<and>
    length in_params = length in_args_dtype"
  assume "\<exists>p d q d'.
       (p, Some d) \<in> set (observed in_params out_params in_args_dtype out_args_dtype) \<and>
       (q, Some d') \<in> set (observed in_params out_params in_args_dtype out_args_dtype) \<and>
       p_dtype p = None \<and> p_dtype q = None \<and> p_ctype p = p_ctype q \<and> d \<noteq> d'"
  then obtain p d q d' where
    p: "(p, Some d) \<in> set (observed in_params out_params in_args_dtype out_args_dtype)"
    and q: "(q, Some d') \<in> set (observed in_params out_params in_args_dtype out_args_dtype)"
    and g: "p_dtype p = None" "p_dtype q = None" "p_ctype p = p_ctype q" and ne: "d \<noteq> d'"
    by blast
  show "is_TypeError (decide_params_type in_params out_params in_args_dtype out_args_dtype)"
  proof (rule ccontr)
    assume n: "\<not> is_TypeError
      (decide_params_type in_params out_params in_args_dtype out_args_dtype)"
    from h have h1: "out_args_dtype = [] \<or> length out_params = length out_args_dtype"
      and h2: "length in_params = length in_args_dtype" by simp_all
    from decide_params_type_loops [OF h1 h2 n] obtain td1 td2 where
      l1: "decide_out_loop (zip out_params out_args_dtype) [] = Inr td1"
      and l2: "decide_in_loop (zip in_params in_args_dtype) td1 = Inr td2" by blast
    from loops_agree [OF l1 l2 p] g have "map_of td2 (p_ctype p) = Some d" by simp
    moreover from loops_agree [OF l1 l2 q] g have "map_of td2 (p_ctype p) = Some d'" by simp
    ultimately show False using ne by simp
  qed
next
  assume h: "(out_args_dtype = [] \<or> length out_params = length out_args_dtype) \<and>
    length in_params = length in_args_dtype"
  assume "\<exists>p d t.
       (p, Some d) \<in> set (observed in_params out_params in_args_dtype out_args_dtype) \<and>
       p_dtype p = Some t \<and> d \<noteq> t"
  then obtain p d t where
    p: "(p, Some d) \<in> set (observed in_params out_params in_args_dtype out_args_dtype)"
    and c: "p_dtype p = Some t" and ne: "d \<noteq> t" by blast
  show "is_TypeError (decide_params_type in_params out_params in_args_dtype out_args_dtype)"
  proof (rule ccontr)
    assume n: "\<not> is_TypeError
      (decide_params_type in_params out_params in_args_dtype out_args_dtype)"
    from h have h1: "out_args_dtype = [] \<or> length out_params = length out_args_dtype"
      and h2: "length in_params = length in_args_dtype" by simp_all
    from decide_params_type_loops [OF h1 h2 n] obtain td1 td2 where
      l1: "decide_out_loop (zip out_params out_args_dtype) [] = Inr td1"
      and l2: "decide_in_loop (zip in_params in_args_dtype) td1 = Inr td2" by blast
    from loops_agree [OF l1 l2 p] c ne show False by simp
  qed
qed

lemmas sample_params = param_T_x_def param_T_y_def param_float32_w_def param_T_z_def

theorem type_resolution_first_dtype_binds_witness:
  "decide_params_type [param_T_x, param_T_y] [param_T_z] [Some Float32, Some Float32] [] =
     Inr ([Float32, Float32], [Float32], [(Some ''T'', Float32)]) \<and>
   map_of [(Some ''T'', Float32)] =
     map_of (bindings (observed [param_T_x, param_T_y] [param_T_z]
                         [Some Float32, Some Float32] [])) \<and>
   is_TypeError (decide_params_type [param_T_x] [param_T_z] [Some Float32] [Some Int32]) \<and>
   is_TypeError (decide_params_type [param_float32_w] [] [Some Int32] [])"
proof -
  have ev: "decide_params_type [param_T_x, param_T_y] [param_T_z]
              [Some Float32, Some Float32] [] =
            Inr ([Float32, Float32], [Float32], [(Some ''T'', Float32)])"
    by (simp add: decide_params_type_def resolve_type_def sample_params)
  have 1: "map_of [(Some ''T'', Float32)] =
     map_of (bindings (observed [param_T_x, param_T_y] [param_T_z]
                         [Some Float32, Some Float32] []))"
    using type_resolution_first_dtype_binds
      [of "[]" "[param_T_z]" "[param_T_x, param_T_y]" "[Some Float32, Some Float32]"] ev
    by simp
  have 2: "is_TypeError
      (decide_params_type [param_T_x] [param_T_z] [Some Float32] [Some Int32])"
  proof -
    have "\<exists>p d q d'.
       (p, Some d) \<in> set (observed [param_T_x] [param_T_z] [Some Float32] [Some Int32]) \<and>
       (q, Some d') \<in> set (observed [param_T_x] [param_T_z] [Some Float32] [Some Int32]) \<and>
       p_dtype p = None \<and> p_dtype q = None \<and> p_ctype p = p_ctype q \<and> d \<noteq> d'"
      by (rule exI [of _ param_T_z], rule exI [of _ Int32], rule exI [of _ param_T_x],
          rule exI [of _ Float32]) (simp add: observed_def sample_params)
    with type_resolution_first_dtype_binds
      [of "[Some Int32]" "[param_T_z]" "[param_T_x]" "[Some Float32]"]
    show ?thesis by simp
  qed
  have 3: "is_TypeError (decide_params_type [param_float32_w] [] [Some Int32] [])"
  proof -
    have "\<exists>p d t.
       (p, Some d) \<in> set (observed [param_float32_w] [] [Some Int32] []) \<and>
       p_dtype p = Some t \<and> d \<noteq> t"
      by (rule exI [of _ param_float32_w], rule exI [of _ Int32], rule exI [of _ Float32])
         (simp add: observed_def sample_params)
    with type_resolution_first_dtype_binds
      [of "[]" "[]" "[param_float32_w]" "[Some Int32]"]
    show ?thesis by simp
  qed
  show ?thesis by (intro conjI ev 1 2 3)
qed

subsection \<open>Dimension reduction\<close>

lemma contiguous_at_all:
  "\<forall>x \<in> set arrays. i < length (a_strides x) \<Longrightarrow>
     contiguous_at i shape arrays =
       Inr (\<forall>x \<in> set arrays. a_strides x ! i * shape ! i = a_strides x ! (i - 1))"
  by (induction arrays) (auto simp add: Let_def)

lemma merge_axes_append:
  "merge_axes (xs @ ys) shape arrays =
     (case merge_axes xs shape arrays of
        Inl e \<Rightarrow> Inl e
      | Inr sh \<Rightarrow> merge_axes ys sh arrays)"
  by (induction xs shape arrays rule: merge_axes.induct) (auto split: sum.splits)

lemma merge_axes_untouched:
  "merge_axes xs shape arrays = Inr sh \<Longrightarrow> \<forall>i \<in> set xs. i < k \<Longrightarrow>
     length sh = length shape \<and> (\<forall>j \<ge> k. sh ! j = shape ! j)"
proof (induction xs shape arrays rule: merge_axes.induct)
  case (1 shape array_args)
  then show ?case by simp
next
  case (2 i rest shape array_args)
  from "2.prems"(1) obtain c where c: "contiguous_at i shape array_args = Inr c"
    by (auto split: sum.splits)
  show ?case
  proof (cases c)
    case True
    with c "2.prems"
    have r: "merge_axes rest ((shape[i := shape ! i * shape ! (i - 1)])[i - 1 := 1]) array_args
               = Inr sh" by simp
    from "2.IH"(1) [OF c True r] "2.prems"(2)
    have "length sh = length shape \<and>
          (\<forall>j\<ge>k. sh ! j = ((shape[i := shape ! i * shape ! (i - 1)])[i - 1 := 1]) ! j)"
      by simp
    moreover have "i < k" using "2.prems"(2) by simp
    ultimately show ?thesis by simp
  next
    case False
    with c "2.prems" have r: "merge_axes rest shape array_args = Inr sh" by simp
    from "2.IH"(2) [OF c False r] "2.prems"(2) show ?thesis by simp
  qed
qed

lemma prod_list_merge_two:
  "0 < i \<Longrightarrow> i < length sh \<Longrightarrow>
     prod_list ((sh[i := sh ! i * sh ! (i - 1)])[i - 1 := 1]) = prod_list (sh :: int list)"
proof (induction sh arbitrary: i)
  case Nil
  then show ?case by simp
next
  case (Cons z zs)
  show ?case
  proof (cases "i = 1")
    case True
    with Cons.prems obtain y ys where "zs = y # ys" by (cases zs) auto
    with True show ?thesis by simp
  next
    case False
    with Cons.prems obtain k where k: "i = Suc k" "0 < k" "k < length zs"
      by (cases i) auto
    from Cons.IH [OF k(2,3)] k show ?thesis
      by (cases k) simp_all
  qed
qed

lemma merge_axes_prod:
  "merge_axes xs shape arrays = Inr sh \<Longrightarrow> \<forall>i \<in> set xs. 0 < i \<and> i < length shape \<Longrightarrow>
     prod_list sh = prod_list shape"
proof (induction xs shape arrays rule: merge_axes.induct)
  case (1 shape array_args)
  then show ?case by simp
next
  case (2 i rest shape array_args)
  from "2.prems"(1) obtain c where c: "contiguous_at i shape array_args = Inr c"
    by (auto split: sum.splits)
  have i: "0 < i" "i < length shape" using "2.prems"(2) by simp_all
  show ?case
  proof (cases c)
    case True
    with c "2.prems"
    have r: "merge_axes rest ((shape[i := shape ! i * shape ! (i - 1)])[i - 1 := 1]) array_args
               = Inr sh" by simp
    from "2.IH"(1) [OF c True r] "2.prems"(2)
    have "prod_list sh = prod_list ((shape[i := shape ! i * shape ! (i - 1)])[i - 1 := 1])"
      by simp
    with prod_list_merge_two [OF i] show ?thesis by simp
  next
    case False
    with c "2.prems" have r: "merge_axes rest shape array_args = Inr sh" by simp
    from "2.IH"(2) [OF c False r] "2.prems"(2) show ?thesis by simp
  qed
qed

lemma prod_list_drop_ones:
  "prod_list (filter (\<lambda>dim. dim \<noteq> 1) sh) = prod_list (sh :: int list)"
  by (induction sh) auto

lemma reduce_dims_shape:
  assumes "1 < length indexer" "reduce_dims args params indexer = Inr (args', indexer')"
  shows "\<exists>sh. merged_before args params indexer (length indexer) = Inr sh \<and>
           indexer' = filter (\<lambda>d. d \<noteq> 1) sh"
  using assms
  by (auto simp add: reduce_dims_def merged_before_def array_operands_def Let_def
      split: sum.splits if_splits)

lemma reduce_dims_prod:
  assumes "reduce_dims args params indexer = Inr (args', indexer')"
  shows "prod_list indexer' = prod_list indexer"
proof (cases "length indexer \<le> 1")
  case True
  with assms show ?thesis by (simp add: reduce_dims_def)
next
  case False
  then have "1 < length indexer" by simp
  from reduce_dims_shape [OF this assms] obtain sh where
    sh: "merged_before args params indexer (length indexer) = Inr sh"
    and ix: "indexer' = filter (\<lambda>d. d \<noteq> 1) sh" by blast
  have "prod_list sh = prod_list indexer"
    using sh unfolding merged_before_def by (rule merge_axes_prod) simp
  with ix show ?thesis by (simp add: prod_list_drop_ones)
qed

lemma merge_step:
  assumes "1 \<le> i" "i < length indexer"
    "merged_before args params indexer i = Inr sh"
    "\<forall>x \<in> set (array_operands args params). i < length (a_strides x)"
  shows "merged_before args params indexer (Suc i) =
     Inr (if (\<forall>x \<in> set (array_operands args params).
                a_strides x ! i * indexer ! i = a_strides x ! (i - 1))
          then (sh[i := indexer ! i * sh ! (i - 1)])[i - 1 := 1] else sh)"
proof -
  have up: "[1..<Suc i] = [1..<i] @ [i]" using assms(1) by simp
  have un: "sh ! i = indexer ! i"
    using merge_axes_untouched [OF assms(3) [unfolded merged_before_def], of i] by simp
  show ?thesis
    unfolding merged_before_def up merge_axes_append
    using assms(3) [unfolded merged_before_def] contiguous_at_all [OF assms(4), of sh] un
    by simp
qed

lemma merge_axes_total:
  "\<forall>i \<in> set xs. \<forall>x \<in> set arrays. i < length (a_strides x) \<Longrightarrow>
     \<exists>sh. merge_axes xs shape arrays = Inr sh"
proof (induction xs arbitrary: shape)
  case Nil
  then show ?case by simp
next
  case (Cons i rest)
  then have "\<forall>x \<in> set arrays. i < length (a_strides x)" by simp
  from contiguous_at_all [OF this] Cons show ?case by simp
qed

lemma keep_strides_total:
  "length ss \<le> length ds \<Longrightarrow> \<exists>r. keep_strides ss ds = Inr r"
proof (induction ss ds rule: keep_strides.induct)
  case (3 s ss d ds)
  then obtain r where "keep_strides ss ds = Inr r" by auto
  then show ?case by simp
qed simp_all

lemma set_array_args_of:
  "set (array_args_of zs) = {x. (Ndarray x, True) \<in> set zs}"
  by (induction zs rule: array_args_of.induct) auto

lemma reshape_args_total:
  "length args \<le> length flags \<Longrightarrow>
   \<forall>x. (Ndarray x, True) \<in> set (zip args flags) \<longrightarrow> length (a_strides x) \<le> length sh \<Longrightarrow>
     \<exists>r. reshape_args args flags sh new_shape = Inr r"
proof (induction args arbitrary: flags)
  case Nil
  then show ?case by simp
next
  case (Cons a rest)
  from Cons.prems(1) obtain f fs where fl: "flags = f # fs" by (cases flags) auto
  with Cons.prems have "length rest \<le> length fs"
    and "\<forall>x. (Ndarray x, True) \<in> set (zip rest fs) \<longrightarrow> length (a_strides x) \<le> length sh"
    by simp_all
  from Cons.IH [OF this] obtain r where r: "reshape_args rest fs sh new_shape = Inr r"
    by blast
  show ?case
  proof (cases a)
    case (Ndarray x)
    show ?thesis
    proof (cases f)
      case True
      with Cons.prems(2) Ndarray fl have "length (a_strides x) \<le> length sh" by simp
      from keep_strides_total [OF this] obtain ns where "keep_strides (a_strides x) sh = Inr ns"
        by blast
      with r Ndarray True fl show ?thesis by simp
    next
      case False
      with r Ndarray fl show ?thesis by simp
    qed
  qed (use r fl in simp_all)
qed

lemma array_operands_set:
  "set (array_operands args params) =
     {x. \<exists>j. j < length args \<and> j < length params \<and> args ! j = Ndarray x \<and>
              \<not> p_raw (params ! j)}"
  unfolding array_operands_def set_array_args_of
  apply (auto simp add: set_zip)
  subgoal for x j by (rule exI [of _ j]) simp
  done

lemma reduce_dims_total:
  assumes "length args \<le> length params"
    "\<forall>x \<in> set (array_operands args params). length (a_strides x) = length indexer"
  shows "\<not> isl (reduce_dims args params indexer)"
proof (cases "length indexer \<le> 1")
  case True
  then show ?thesis by (simp add: reduce_dims_def)
next
  case False
  have "\<forall>i \<in> set [1..<length indexer].
          \<forall>x \<in> set (array_operands args params). i < length (a_strides x)"
    using assms(2) by simp
  from merge_axes_total [OF this] obtain sh where
    sh: "merge_axes [1..<length indexer] indexer (array_operands args params) = Inr sh"
    by blast
  have len: "length sh = length indexer"
    using merge_axes_untouched [OF sh, of "length indexer"] by simp
  let ?flags = "map (\<lambda>(a, p). \<not> p_raw p \<and> is_ndarray a) (zip args params)"
  have l: "length args \<le> length ?flags" using assms(1) by simp
  have a: "\<forall>x. (Ndarray x, True) \<in> set (zip args ?flags) \<longrightarrow>
             length (a_strides x) \<le> length sh"
    using assms(2) len by (simp add: array_operands_def set_array_args_of)
  from reshape_args_total [OF l a] obtain r where
    "reshape_args args ?flags sh (filter (\<lambda>dim. dim \<noteq> 1) sh) = Inr r" by blast
  with sh False show ?thesis
    by (simp add: reduce_dims_def Let_def array_operands_def)
qed

text \<open>
  Claim C4. When the shape has rank at most 1, \<^verbatim>\<open>_reduce_dims\<close> returns the
  arguments and the indexer as they are. Whenever it returns, the product of the
  extents of the reduced shape is the product of the extents of the shape it was given;
  for a shape of rank above 1 the reduced shape is the shape list of the loop, after the
  last axis, without its extents 1. At axis \<open>i\<close> the loop merges the axes \<open>i - 1\<close>
  and \<open>i\<close> (extent \<open>i\<close> becomes the combined extent, extent \<open>i - 1\<close> becomes
  1) exactly when \<open>stride[i] * extent[i] = stride[i - 1]\<close> holds for every non-raw
  array operand; one operand for which it fails leaves the shape list as it is. The
  function returns whenever there is a parameter for every argument and the strides of
  every non-raw array operand are as many as the axes of the shape.
\<close>

theorem reduce_dims_merges_contiguous_axes:
  "(length indexer \<le> 1 \<longrightarrow> reduce_dims args params indexer = Inr (args, indexer)) \<and>
   (reduce_dims args params indexer = Inr (args', indexer') \<longrightarrow>
      prod_list indexer' = prod_list indexer) \<and>
   (1 < length indexer \<and> reduce_dims args params indexer = Inr (args', indexer') \<longrightarrow>
      (\<exists>sh. merged_before args params indexer (length indexer) = Inr sh \<and>
            indexer' = filter (\<lambda>d. d \<noteq> 1) sh)) \<and>
   (1 \<le> i \<and> i < length indexer \<and> merged_before args params indexer i = Inr sh \<and>
      (\<forall>x \<in> set (array_operands args params). i < length (a_strides x)) \<longrightarrow>
      merged_before args params indexer (Suc i) =
        Inr (if (\<forall>x \<in> set (array_operands args params).
                   a_strides x ! i * indexer ! i = a_strides x ! (i - 1))
             then (sh[i := indexer ! i * sh ! (i - 1)])[i - 1 := 1] else sh)) \<and>
   (length args \<le> length params \<and>
      (\<forall>x \<in> set (array_operands args params). length (a_strides x) = length indexer) \<longrightarrow>
      \<not> isl (reduce_dims args params indexer))"
proof (intro conjI impI)
  assume "length indexer \<le> 1"
  then show "reduce_dims args params indexer = Inr (args, indexer)"
    by (simp add: reduce_dims_def)
next
  assume "reduce_dims args params indexer = Inr (args', indexer')"
  then show "prod_list indexer' = prod_list indexer" by (rule reduce_dims_prod)
next
  assume a: "1 < length indexer \<and> reduce_dims args params indexer = Inr (args', indexer')"
  then have 1: "1 < length indexer"
    and 2: "reduce_dims args params indexer = Inr (args', indexer')" by simp_all
  show "\<exists>sh. merged_before args params indexer (length indexer) = Inr sh \<and>
            indexer' = filter (\<lambda>d. d \<noteq> 1) sh"
    by (rule reduce_dims_shape [OF 1 2])
next
  assume a: "1 \<le> i \<and> i < length indexer \<and> merged_before args params indexer i = Inr sh \<and>
      (\<forall>x \<in> set (array_operands args params). i < length (a_strides x))"
  then have 1: "1 \<le> i" and 2: "i < length indexer"
    and 3: "merged_before args params indexer i = Inr sh"
    and 4: "\<forall>x \<in> set (array_operands args params). i < length (a_strides x)" by simp_all
  show "merged_before args params indexer (Suc i) =
        Inr (if (\<forall>x \<in> set (array_operands args params).
                   a_strides x ! i * indexer ! i = a_strides x ! (i - 1))
             then (sh[i := indexer ! i * sh ! (i - 1)])[i - 1 := 1] else sh)"
    by (rule merge_step [OF 1 2 3 4])
next
  assume a: "length args \<le> length params \<and>
      (\<forall>x \<in> set (array_operands args params). length (a_strides x) = length indexer)"
  then have 1: "length args \<le> length params"
    and 2: "\<forall>x \<in> set (array_operands args params). length (a_strides x) = length indexer"
    by simp_all
  show "\<not> isl (reduce_dims args params indexer)"
    by (rule reduce_dims_total [OF 1 2])
qed

lemmas sample_arrays = sample_array_a_def sample_array_b_def sample_array_c_def

lemma sample_operands_ab:
  "array_operands [Ndarray sample_array_a, Ndarray sample_array_b] [param_T_x, param_T_z] =
     [sample_array_a, sample_array_b]"
  by (simp add: array_operands_def param_T_x_def param_T_z_def)

lemma sample_operands_cb:
  "array_operands [Ndarray sample_array_c, Ndarray sample_array_b] [param_T_x, param_T_z] =
     [sample_array_c, sample_array_b]"
  by (simp add: array_operands_def param_T_x_def param_T_z_def)

lemma sample_reduce_ab:
  "reduce_dims [Ndarray sample_array_a, Ndarray sample_array_b] [param_T_x, param_T_z] [2, 3] =
     Inr ([Ndarray (sample_array_a\<lparr>a_shape := [6], a_strides := [4]\<rparr>),
           Ndarray (sample_array_b\<lparr>a_shape := [6], a_strides := [4]\<rparr>)], [6])"
  by (simp add: reduce_dims_def Let_def sample_operands_ab [unfolded array_operands_def]
      sample_arrays param_T_x_def param_T_z_def)

theorem reduce_dims_merges_contiguous_axes_witness:
  "reduce_dims [Ndarray sample_array_a] [param_T_x] [6] = Inr ([Ndarray sample_array_a], [6]) \<and>
   reduce_dims [Ndarray sample_array_a, Ndarray sample_array_b] [param_T_x, param_T_z] [2, 3] =
     Inr ([Ndarray (sample_array_a\<lparr>a_shape := [6], a_strides := [4]\<rparr>),
           Ndarray (sample_array_b\<lparr>a_shape := [6], a_strides := [4]\<rparr>)], [6]) \<and>
   prod_list [6 :: int] = prod_list [2, 3] \<and>
   (\<exists>sh. merged_before [Ndarray sample_array_a, Ndarray sample_array_b]
           [param_T_x, param_T_z] [2, 3] 2 = Inr sh \<and> [6] = filter (\<lambda>d. d \<noteq> 1) sh) \<and>
   merged_before [Ndarray sample_array_a, Ndarray sample_array_b] [param_T_x, param_T_z]
     [2, 3] 2 = Inr [1, 6] \<and>
   merged_before [Ndarray sample_array_c, Ndarray sample_array_b] [param_T_x, param_T_z]
     [2, 3] 2 = Inr [2, 3] \<and>
   \<not> isl (reduce_dims [Ndarray sample_array_c, Ndarray sample_array_b]
            [param_T_x, param_T_z] [2, 3])"
proof -
  have 1: "reduce_dims [Ndarray sample_array_a] [param_T_x] [6] =
      Inr ([Ndarray sample_array_a], [6])"
    using reduce_dims_merges_contiguous_axes [of "[6]" "[Ndarray sample_array_a]" "[param_T_x]"]
    by simp
  note ab = reduce_dims_merges_contiguous_axes
    [of "[2, 3]" "[Ndarray sample_array_a, Ndarray sample_array_b]" "[param_T_x, param_T_z]"
        "[Ndarray (sample_array_a\<lparr>a_shape := [6], a_strides := [4]\<rparr>),
          Ndarray (sample_array_b\<lparr>a_shape := [6], a_strides := [4]\<rparr>)]" "[6]" 1 "[2, 3]"]
  have 2: "prod_list [6 :: int] = prod_list [2, 3]"
    using ab sample_reduce_ab by simp
  have 3: "\<exists>sh. merged_before [Ndarray sample_array_a, Ndarray sample_array_b]
           [param_T_x, param_T_z] [2, 3] 2 = Inr sh \<and> [6] = filter (\<lambda>d. d \<noteq> 1) sh"
    using ab sample_reduce_ab by (simp add: numeral_2_eq_2)
  have m1: "merged_before [Ndarray sample_array_a, Ndarray sample_array_b]
      [param_T_x, param_T_z] [2, 3] 1 = Inr [2, 3]"
    by (simp add: merged_before_def)
  have 4: "merged_before [Ndarray sample_array_a, Ndarray sample_array_b]
      [param_T_x, param_T_z] [2, 3] 2 = Inr [1, 6]"
    using ab m1 unfolding sample_operands_ab
    by (simp add: sample_arrays numeral_2_eq_2)
  have m1c: "merged_before [Ndarray sample_array_c, Ndarray sample_array_b]
      [param_T_x, param_T_z] [2, 3] 1 = Inr [2, 3]"
    by (simp add: merged_before_def)
  note cb = reduce_dims_merges_contiguous_axes
    [of "[2, 3]" "[Ndarray sample_array_c, Ndarray sample_array_b]" "[param_T_x, param_T_z]"
        "[]" "[]" 1 "[2, 3]"]
  have 5: "merged_before [Ndarray sample_array_c, Ndarray sample_array_b]
      [param_T_x, param_T_z] [2, 3] 2 = Inr [2, 3]"
    using cb m1c unfolding sample_operands_cb
    by (simp add: sample_arrays numeral_2_eq_2)
  have 6: "\<not> isl (reduce_dims [Ndarray sample_array_c, Ndarray sample_array_b]
            [param_T_x, param_T_z] [2, 3])"
    using cb unfolding sample_operands_cb
    by (simp add: sample_arrays)
  show ?thesis by (intro conjI 1 sample_reduce_ab 2 3 4 5 6)
qed

subsection \<open>Selection of the routine of a ufunc\<close>


































subsection \<open>The compilation cache\<close>
















































text \<open>
  The assumption about the native compiler cannot be dropped: with a compiler that
  answers every request with the same module, the calls on two devices return the same
  kernel.
\<close>

lemma shared_module_shared_kernel:
  "fst (get_elementwise_kernel sample_key (init_state (\<lambda>log. Inr 0) 0)) =
   fst (get_elementwise_kernel sample_key
          (use 1 (snd (get_elementwise_kernel sample_key (init_state (\<lambda>log. Inr 0) 0)))))"
  by code_simp

subsection \<open>Calls of an ElementwiseKernel\<close>

lemma reject_host_arrays_member:
  "HostNdarray \<in> set args \<Longrightarrow> reject_host_arrays args = Inl (TypeError ''Unsupported type'')"
  by (induction args rule: reject_host_arrays.induct) auto

text \<open>
  Claim C9. A call of an \<^verbatim>\<open>ElementwiseKernel\<close> with a host array among its
  positional arguments raises a TypeError, that of the number of arguments or that of
  the unsupported type, and the state after the call is the state before it: nothing was
  broadcast, resolved, allocated, compiled or launched.
\<close>

theorem host_array_rejected:
  "HostNdarray \<in> set args \<longrightarrow>
     ElementwiseKernel_call self args n st =
       (Inl (TypeError (if length args = ek_nin self \<or> length args = ek_nin self + ek_nout self
                        then ''Unsupported type''
                        else ''Wrong number of arguments for '' @ ek_name self)), st)"
  by (simp add: ElementwiseKernel_call_def ElementwiseKernel_resolve_def
      reject_host_arrays_member)

theorem host_array_rejected_witness:
  "ElementwiseKernel_call sample_kernel [HostNdarray, Ndarray sample_array_b] None sample_state =
     (Inl (TypeError ''Unsupported type''), sample_state)"
  using host_array_rejected
    [of "[HostNdarray, Ndarray sample_array_b]" sample_kernel None sample_state]
  by (simp add: sample_kernel_def)

lemma broadcast_shape_none:
  "\<forall>a \<in> set xs. a = PyNone \<Longrightarrow> broadcast_shape xs acc = Inr acc"
  by (induction xs) auto

lemma broadcast_to_none:
  "\<forall>a \<in> set xs. a = PyNone \<Longrightarrow> map (broadcast_to sh) xs = xs"
  by (induction xs) auto

lemma cupy_broadcast_none:
  "\<forall>a \<in> set xs. a = PyNone \<Longrightarrow>
     cupy_broadcast xs = Inr \<lparr>b_shape = [], b_size = 1, b_values = xs\<rparr>"
  by (simp add: cupy_broadcast_def broadcast_shape_none broadcast_to_none)

lemma broadcast_undecided:
  assumes "\<forall>(p, a) \<in> set (zip params args). p_raw p \<or> \<not> is_ndarray a"
  shows "broadcast args params True = Inl (ValueError ''Loop size is Undecided'')"
proof -
  let ?xs = "map (\<lambda>(p, a). if \<not> p_raw p \<and> is_ndarray a then a else PyNone) (zip params args)"
  have n: "\<forall>a \<in> set ?xs. a = PyNone" using assms by auto
  show ?thesis
    unfolding broadcast_def cupy_broadcast_none [OF n]
    using n by (simp add: list_all_iff)
qed

lemma check_args_no_host:
  "check_args dev args = Inr u \<Longrightarrow> reject_host_arrays args = Inr ()"
  by (induction dev args rule: check_args.induct) (auto split: if_splits)

text \<open>
  Claim C6, as amended. A call of an \<^verbatim>\<open>ElementwiseKernel\<close> without the keyword
  \<^verbatim>\<open>size\<close>, with an accepted number of arguments that all pass
  \<^verbatim>\<open>_check_args\<close> (arrays of the current device and supported scalars), and in
  which every array stands at a raw parameter, raises the ValueError
  \<^verbatim>\<open>Loop size is Undecided\<close> and leaves the state as it is.
\<close>

theorem loop_size_undecided:
  "(length args = ek_nin self \<or> length args = ek_nin self + ek_nout self) \<and>
   check_args (current_device st) args = Inr () \<and>
   (\<forall>(p, a) \<in> set (zip (ek_params self) args). p_raw p \<or> \<not> is_ndarray a) \<longrightarrow>
     ElementwiseKernel_call self args None st =
       (Inl (ValueError ''Loop size is Undecided''), st)"
proof
  assume a: "(length args = ek_nin self \<or> length args = ek_nin self + ek_nout self) \<and>
    check_args (current_device st) args = Inr () \<and>
    (\<forall>(p, a) \<in> set (zip (ek_params self) args). p_raw p \<or> \<not> is_ndarray a)"
  then have 1: "length args = ek_nin self \<or> length args = ek_nin self + ek_nout self"
    and 2: "check_args (current_device st) args = Inr ()"
    and 3: "\<forall>(p, a) \<in> set (zip (ek_params self) args). p_raw p \<or> \<not> is_ndarray a"
    by simp_all
  show "ElementwiseKernel_call self args None st =
       (Inl (ValueError ''Loop size is Undecided''), st)"
    using 1 by (simp add: ElementwiseKernel_call_def ElementwiseKernel_resolve_def 2
        check_args_no_host [OF 2] broadcast_undecided [OF 3])
qed

theorem loop_size_undecided_witness:
  "ElementwiseKernel_call sample_kernel [PyFloat] None sample_state =
     (Inl (ValueError ''Loop size is Undecided''), sample_state) \<and>
   ElementwiseKernel_call sample_raw_kernel [Ndarray sample_array_a, Ndarray sample_array_b] None
     sample_state =
     (Inl (ValueError ''Loop size is Undecided''), sample_state)"
proof -
  have 1: "ElementwiseKernel_call sample_kernel [PyFloat] None sample_state =
     (Inl (ValueError ''Loop size is Undecided''), sample_state)"
    using loop_size_undecided [of "[PyFloat]" sample_kernel sample_state]
    by (simp add: sample_kernel_def sample_state_def init_state_def)
  have 2: "ElementwiseKernel_call sample_raw_kernel
      [Ndarray sample_array_a, Ndarray sample_array_b] None sample_state =
     (Inl (ValueError ''Loop size is Undecided''), sample_state)"
    using loop_size_undecided
      [of "[Ndarray sample_array_a, Ndarray sample_array_b]" sample_raw_kernel sample_state]
    by (simp add: sample_raw_kernel_def sample_state_def init_state_def sample_array_a_def
        sample_array_b_def)
  show ?thesis by (intro conjI 1 2)
qed

text \<open>
  Claim C6, as it is stated, fails on a call whose arguments are all scalars when their
  number is not accepted, and on a call whose only operand is an array at a raw
  parameter when another device is current: both raise another exception.
\<close>

theorem loop_size_undecided_counterexample:
  "list_all (\<lambda>a. \<not> is_ndarray a) [PyInt, PyInt, PyInt] \<and>
   ElementwiseKernel_call sample_kernel [PyInt, PyInt, PyInt] None sample_state =
     (Inl (TypeError ''Wrong number of arguments for copy''), sample_state) \<and>
   list_all p_raw (take 1 (ek_params sample_raw_kernel)) \<and>
   ElementwiseKernel_call sample_raw_kernel [Ndarray sample_array_a] None (use 1 sample_state) =
     (Inl (ValueError ''Array device must be same as the current device''), use 1 sample_state)"
  by (simp add: ElementwiseKernel_call_def ElementwiseKernel_resolve_def sample_kernel_def
      sample_raw_kernel_def sample_state_def init_state_def use_def sample_array_a_def
      param_T_x_def)

subsection \<open>Calls on an empty iteration space\<close>

lemma no_kernel_work_refl: "no_kernel_work st st"
  by (simp add: no_kernel_work_def)

lemma empties_frame:
  "empties sh ts st = (xs, st') \<Longrightarrow> no_kernel_work st st' \<and> length xs = length ts"
proof (induction ts arbitrary: st xs st')
  case Nil
  then show ?case by (simp add: no_kernel_work_def)
next
  case (Cons t ts)
  obtain x st1 where c: "cupy_empty sh t st = (x, st1)" by (cases "cupy_empty sh t st") auto
  obtain ys st2 where e: "empties sh ts st1 = (ys, st2)" by (cases "empties sh ts st1") auto
  from c have "no_kernel_work st st1"
    by (auto simp add: cupy_empty_def no_kernel_work_def)
  moreover from Cons.IH [OF e] have "no_kernel_work st1 st2" "length ys = length ts" by simp_all
  moreover from Cons.prems c e have "xs = Ndarray x # ys" "st' = st2" by simp_all
  ultimately show ?case by (simp add: no_kernel_work_def)
qed

lemma get_out_args_frame:
  "get_out_args in_args out_args out_types out_shape out_params st = (res, st') \<Longrightarrow>
     no_kernel_work st st'"
  by (auto simp add: get_out_args_def no_kernel_work_refl
      split: if_splits prod.splits sum.splits dest: empties_frame)

lemma ElementwiseKernel_resolve_frame:
  assumes "ElementwiseKernel_resolve self args n st = (res, st')"
  shows "no_kernel_work st st'"
proof -
  have "st' = st \<or>
    (\<exists>ia oa ots sh ps r. get_out_args ia oa ots sh ps st = (r, st'))"
    using assms unfolding ElementwiseKernel_resolve_def Let_def
    by (auto split: if_splits sum.splits prod.splits)
  then show ?thesis
    using no_kernel_work_refl get_out_args_frame by blast
qed

lemma ElementwiseKernel_resolve_result:
  assumes "ElementwiseKernel_resolve self args n st = (Inr r, st')"
  shows "r_ret r = ret_of (r_out_args r) \<and>
         (\<exists>val. broadcast args (ek_params self) (n = None) = Inr (r_brod r, val))"
  using assms unfolding ElementwiseKernel_resolve_def Let_def
  by (auto split: if_splits sum.splits prod.splits)

lemma ufunc_resolve_frame:
  assumes "ufunc_resolve can_cast self args out dt st = (res, self', st')"
  shows "no_kernel_work st st'"
proof -
  have "st' = st \<or>
    (\<exists>ia oa ots sh ps r. get_out_args ia oa ots sh ps st = (r, st'))"
    using assms unfolding ufunc_resolve_def Let_def
    by (auto split: if_splits sum.splits prod.splits option.splits)
  then show ?thesis
    using no_kernel_work_refl get_out_args_frame by blast
qed

lemma ufunc_resolve_result:
  assumes "ufunc_resolve can_cast self args out dt st = (Inr r, self', st')"
  shows "u_ret r = ret_of (u_out_args r) \<and> cupy_broadcast args = Inr (u_brod r)"
  using assms unfolding ufunc_resolve_def Let_def
  by (auto split: if_splits sum.splits prod.splits option.splits)

lemma cupy_broadcast_empty:
  "cupy_broadcast xs = Inr b \<Longrightarrow> (b_size b = 0) = (0 \<in> set (b_shape b))"
  by (auto simp add: cupy_broadcast_def prod_list_zero_iff split: sum.splits)

text \<open>
  Claim C5. Let a call of an \<^verbatim>\<open>ElementwiseKernel\<close> or of a ufunc get through its
  checks, type resolution and the allocation of the outputs, and let the broadcast of
  its operands have size 0. Then the call returns the output array, or the tuple of the
  output arrays, that it has at that point, and it did no kernel work: no source was
  synthesized, nothing was compiled or launched and the memos of the kernel builders
  are as before. The steps before the test of the size never do any kernel work, so a
  call that raises in them does none either.
\<close>

theorem empty_broadcast_skips_kernel:
  "(ElementwiseKernel_resolve self args n st = (Inr r, st') \<and> b_size (r_brod r) = 0 \<longrightarrow>
      ElementwiseKernel_call self args n st = (Inr (ret_of (r_out_args r)), st') \<and>
      (\<exists>val. broadcast args (ek_params self) (n = None) = Inr (r_brod r, val)) \<and>
      no_kernel_work st st') \<and>
   (ufunc_resolve can_cast uself uargs out dt st = (Inr ur, uself', ust') \<and>
      b_size (u_brod ur) = 0 \<longrightarrow>
      ufunc_call can_cast uself uargs out dt st = (Inr (ret_of (u_out_args ur)), uself', ust') \<and>
      cupy_broadcast uargs = Inr (u_brod ur) \<and>
      no_kernel_work st ust') \<and>
   no_kernel_work st (snd (ElementwiseKernel_resolve self args n st)) \<and>
   no_kernel_work st (snd (snd (ufunc_resolve can_cast uself uargs out dt st)))"
proof (intro conjI impI)
  assume a: "ElementwiseKernel_resolve self args n st = (Inr r, st') \<and> b_size (r_brod r) = 0"
  then have 1: "ElementwiseKernel_resolve self args n st = (Inr r, st')"
    and 2: "b_size (r_brod r) = 0" by simp_all
  from ElementwiseKernel_resolve_result [OF 1]
  have 3: "r_ret r = ret_of (r_out_args r)"
    and 4: "\<exists>val. broadcast args (ek_params self) (n = None) = Inr (r_brod r, val)"
    by simp_all
  show "ElementwiseKernel_call self args n st = (Inr (ret_of (r_out_args r)), st')"
    by (simp add: ElementwiseKernel_call_def 1 2 3)
  show "\<exists>val. broadcast args (ek_params self) (n = None) = Inr (r_brod r, val)" by (rule 4)
  show "no_kernel_work st st'" by (rule ElementwiseKernel_resolve_frame [OF 1])
next
  assume a: "ufunc_resolve can_cast uself uargs out dt st = (Inr ur, uself', ust') \<and>
      b_size (u_brod ur) = 0"
  then have 1: "ufunc_resolve can_cast uself uargs out dt st = (Inr ur, uself', ust')"
    and 2: "b_size (u_brod ur) = 0" by simp_all
  from ufunc_resolve_result [OF 1]
  have 3: "u_ret ur = ret_of (u_out_args ur)" and 4: "cupy_broadcast uargs = Inr (u_brod ur)"
    by simp_all
  from cupy_broadcast_empty [OF 4] 2 have 5: "0 \<in> set (b_shape (u_brod ur))" by simp
  show "ufunc_call can_cast uself uargs out dt st =
      (Inr (ret_of (u_out_args ur)), uself', ust')"
    by (simp add: ufunc_call_def 1 3 5)
  show "cupy_broadcast uargs = Inr (u_brod ur)" by (rule 4)
  show "no_kernel_work st ust'" by (rule ufunc_resolve_frame [OF 1])
next
  show "no_kernel_work st (snd (ElementwiseKernel_resolve self args n st))"
    by (rule ElementwiseKernel_resolve_frame [of self args n st
          "fst (ElementwiseKernel_resolve self args n st)"]) simp
next
  show "no_kernel_work st (snd (snd (ufunc_resolve can_cast uself uargs out dt st)))"
    by (rule ufunc_resolve_frame [of can_cast uself uargs out dt st
          "fst (ufunc_resolve can_cast uself uargs out dt st)"
          "fst (snd (ufunc_resolve can_cast uself uargs out dt st))"]) simp
qed

lemma sample_empty_resolve:
  "\<not> isl (fst (ElementwiseKernel_resolve sample_kernel [Ndarray sample_empty_float] None
                 sample_state)) \<and>
   b_size (r_brod (projr (fst (ElementwiseKernel_resolve sample_kernel
                                 [Ndarray sample_empty_float] None sample_state)))) = 0"
  by code_simp

lemma sample_empty_ufunc_resolve:
  "\<not> isl (fst (ufunc_resolve can_cast_sample sample_ufunc
                 [Ndarray (sample_empty_int 0), Ndarray (sample_empty_int 1)] None None
                 sample_state)) \<and>
   b_size (u_brod (projr (fst (ufunc_resolve can_cast_sample sample_ufunc
                 [Ndarray (sample_empty_int 0), Ndarray (sample_empty_int 1)] None None
                 sample_state)))) = 0"
  by code_simp

lemma sample_empty_call:
  "fst (ElementwiseKernel_call sample_kernel [Ndarray sample_empty_float] None sample_state) =
     Inr (Single (Ndarray \<lparr>a_dtype = Float32, a_shape = [0], a_strides = [4], a_device = 0,
                           a_data = 10\<rparr>))"
  by code_simp

lemma sample_empty_ufunc_call:
  "fst (ufunc_call can_cast_sample sample_ufunc
          [Ndarray (sample_empty_int 0), Ndarray (sample_empty_int 1)] None None sample_state) =
     Inr (Single (Ndarray \<lparr>a_dtype = Int32, a_shape = [0], a_strides = [4], a_device = 0,
                           a_data = 10\<rparr>))"
  by code_simp

theorem empty_broadcast_skips_kernel_witness:
  "fst (ElementwiseKernel_call sample_kernel [Ndarray sample_empty_float] None sample_state) =
     Inr (Single (Ndarray \<lparr>a_dtype = Float32, a_shape = [0], a_strides = [4], a_device = 0,
                           a_data = 10\<rparr>)) \<and>
   no_kernel_work sample_state
     (snd (ElementwiseKernel_call sample_kernel [Ndarray sample_empty_float] None sample_state)) \<and>
   fst (ufunc_call can_cast_sample sample_ufunc
          [Ndarray (sample_empty_int 0), Ndarray (sample_empty_int 1)] None None sample_state) =
     Inr (Single (Ndarray \<lparr>a_dtype = Int32, a_shape = [0], a_strides = [4], a_device = 0,
                           a_data = 10\<rparr>)) \<and>
   no_kernel_work sample_state
     (snd (snd (ufunc_call can_cast_sample sample_ufunc
                  [Ndarray (sample_empty_int 0), Ndarray (sample_empty_int 1)] None None
                  sample_state)))"
proof -
  let ?er = "ElementwiseKernel_resolve sample_kernel [Ndarray sample_empty_float] None
               sample_state"
  let ?ur = "ufunc_resolve can_cast_sample sample_ufunc
               [Ndarray (sample_empty_int 0), Ndarray (sample_empty_int 1)] None None
               sample_state"
  note inst = empty_broadcast_skips_kernel
    [of sample_kernel "[Ndarray sample_empty_float]" None sample_state "projr (fst ?er)"
        "snd ?er" can_cast_sample sample_ufunc
        "[Ndarray (sample_empty_int 0), Ndarray (sample_empty_int 1)]" None None
        "projr (fst ?ur)" "fst (snd ?ur)" "snd (snd ?ur)"]
  have e: "?er = (Inr (projr (fst ?er)), snd ?er) \<and> b_size (r_brod (projr (fst ?er))) = 0"
    using sample_empty_resolve by (cases ?er; cases "fst ?er") auto
  have u: "?ur = (Inr (projr (fst ?ur)), fst (snd ?ur), snd (snd ?ur)) \<and>
           b_size (u_brod (projr (fst ?ur))) = 0"
    using sample_empty_ufunc_resolve by (cases ?ur; cases "fst ?ur") auto
  from inst [THEN conjunct1, THEN mp, OF e]
  have 1: "no_kernel_work sample_state
      (snd (ElementwiseKernel_call sample_kernel [Ndarray sample_empty_float] None
              sample_state))"
    by simp
  from inst [THEN conjunct2, THEN conjunct1, THEN mp, OF u]
  have 2: "no_kernel_work sample_state
     (snd (snd (ufunc_call can_cast_sample sample_ufunc
                  [Ndarray (sample_empty_int 0), Ndarray (sample_empty_int 1)] None None
                  sample_state)))"
    by simp
  show ?thesis by (intro conjI sample_empty_call 1 sample_empty_ufunc_call 2)
qed

subsection \<open>The value a call returns\<close>






























end
